theory Spec2Isabelle
  imports Main "HOL-Library.Word"
begin

unbundle bit_operations_syntax

section \<open>Node-group provisioning of pulumi-eks (nodejs/eks/nodegroup.ts)\<close>

text \<open>
  The theory embeds the three provisioning functions of \<^verbatim>\<open>nodegroup.ts\<close>
  (\<^verbatim>\<open>createNodeGroupInternal\<close>, \<^verbatim>\<open>createNodeGroupV2Internal\<close>,
  \<^verbatim>\<open>createManagedNodeGroupInternal\<close>) and the subnet classifier
  \<^verbatim>\<open>computeWorkerSubnets\<close>. Option values are the plain (already resolved) values of a
  \<^verbatim>\<open>pulumi.Input\<close>; an optional field is an \<open>option\<close>, \<open>None\<close> being
  \<^verbatim>\<open>undefined\<close>. A \<^verbatim>\<open>throw\<close> is the \<open>Inl\<close> of a sum. A value computed inside an
  \<^verbatim>\<open>apply\<close> callback is a field of sum type in the result: the callback's
  \<^verbatim>\<open>throw\<close> rejects that deferred value and does not interrupt the function body.
  Every \<^verbatim>\<open>new aws...\<close> of the function body is logged, in program order, in a list of
  resources returned beside the result.
\<close>

subsection \<open>JavaScript strings, truthiness and numbers\<close>

definition NL :: string where
  "NL = [CHR 0x0A]"

definition DQ :: string where
  "DQ = [CHR 0x22]"

definition SQ :: string where
  "SQ = [CHR 0x27]"

text \<open>\<^verbatim>\<open>String.prototype.split(sep)\<close> for a one-character separator: a cut at every
  occurrence, empty pieces kept.\<close>

fun js_split :: "char \<Rightarrow> string \<Rightarrow> string list" where
  "js_split c [] = [[]]"
| "js_split c (x # xs) =
     (if x = c then [] # js_split c xs
      else (case js_split c xs of [] \<Rightarrow> [[x]] | t # ts \<Rightarrow> (x # t) # ts))"

text \<open>\<^verbatim>\<open>Array.prototype.join(sep)\<close> on an array of strings.\<close>

fun js_join :: "string \<Rightarrow> string list \<Rightarrow> string" where
  "js_join sep [] = []"
| "js_join sep [x] = x"
| "js_join sep (x # y # ys) = x @ sep @ js_join sep (y # ys)"

text \<open>Truthiness of an optional string (\<^verbatim>\<open>undefined\<close> and \<^verbatim>\<open>""\<close> are falsy), of an
  optional boolean and of an optional object (every object is truthy).\<close>

definition truthy_str :: "string option \<Rightarrow> bool" where
  "truthy_str v = (case v of None \<Rightarrow> False | Some s \<Rightarrow> s \<noteq> [])"

definition truthy_bool :: "bool option \<Rightarrow> bool" where
  "truthy_bool v = (case v of None \<Rightarrow> False | Some b \<Rightarrow> b)"

definition truthy_obj :: "'a option \<Rightarrow> bool" where
  "truthy_obj v = (case v of None \<Rightarrow> False | Some x \<Rightarrow> True)"

text \<open>A JavaScript \<^verbatim>\<open>number\<close>, as far as the code looks at one (its truthiness and its
  \<^verbatim>\<open>toString()\<close>): a finite decimal given by its sign, its integer part and its digits after
  the point (none for an integral value, no trailing zero otherwise), or \<^verbatim>\<open>NaN\<close>, or an
  infinity. Plain decimal notation is what \<^verbatim>\<open>toString\<close> prints for magnitudes between
  \<open>10\<^sup>-\<^sup>6\<close> and \<open>10\<^sup>2\<^sup>1\<close>.\<close>

datatype jsnumber =
    JSNum bool nat "nat list"
  | JSNaN
  | JSInfinity bool


fun truthy_num :: "jsnumber option \<Rightarrow> bool" where
  "truthy_num None = False"
| "truthy_num (Some (JSNum neg i fs)) = (i \<noteq> 0 \<or> fs \<noteq> [])"
| "truthy_num (Some JSNaN) = False"
| "truthy_num (Some (JSInfinity neg)) = True"

definition digit_char :: "nat \<Rightarrow> char" where
  "digit_char d = char_of (48 + d mod 10)"

fun showNat :: "nat \<Rightarrow> string" where
  "showNat n = (if n < 10 then [digit_char n] else showNat (n div 10) @ [digit_char (n mod 10)])"

declare showNat.simps [simp del]

fun toString :: "jsnumber \<Rightarrow> string" where
  "toString (JSNum neg i fs) =
     (if neg \<and> (i \<noteq> 0 \<or> fs \<noteq> []) then ''-'' else []) @ showNat i @
     (if fs = [] then [] else ''.'' @ map digit_char fs)"
| "toString JSNaN = ''NaN''"
| "toString (JSInfinity neg) = (if neg then ''-Infinity'' else ''Infinity'')"

text \<open>\<^verbatim>\<open>new RegExp("^\d+$")\<close>: the pattern is built from a string literal, in which the
  escape \<^verbatim>\<open>\d\<close> is the letter \<^verbatim>\<open>d\<close>; the regular expression is \<^verbatim>\<open>^d+$\<close>, and
  \<^verbatim>\<open>test\<close> accepts exactly the non-empty strings of letters \<^verbatim>\<open>d\<close>.\<close>

definition numeric_test :: "string \<Rightarrow> bool" where
  "numeric_test s = (s \<noteq> [] \<and> list_all (\<lambda>c. c = CHR ''d'') s)"

subsection \<open>Options and cluster data\<close>

datatype taint_effect = NoSchedule | NoExecute | PreferNoSchedule

fun effect_string :: "taint_effect \<Rightarrow> string" where
  "effect_string NoSchedule = ''NoSchedule''"
| "effect_string NoExecute = ''NoExecute''"
| "effect_string PreferNoSchedule = ''PreferNoSchedule''"

record Taint =
  taint_value :: string
  taint_effect :: taint_effect

datatype volume_type = Standard | Gp2 | Gp3 | St1 | Sc1 | Io1

text \<open>A security group of the program is a JavaScript object: the model keeps the identity of
  the object beside the id of the group, since two objects may stand for one group and the
  code compares objects (lines 557 and 867).\<close>

record security_group =
  sg_object :: nat
  sg_id :: string

text \<open>\<^verbatim>\<open>NodeGroupBaseOptions\<close> with the field of \<^verbatim>\<open>NodeGroupV2Options\<close>. A mapping
  (\<^verbatim>\<open>labels\<close>, \<^verbatim>\<open>taints\<close>) is the list of its entries in the order of
  \<^verbatim>\<open>Object.keys\<close>. An ingress rule and an instance profile are given by their ids.\<close>

record NodeGroupOptions =
  nodeSubnetIds :: "string list option"
  spotPrice :: "string option"
  nodeSecurityGroup :: "security_group option"
  clusterIngressRule :: "string option"
  nodePublicKey :: "string option"
  keyName :: "string option"
  nodeRootVolumeIops :: "jsnumber option"
  nodeRootVolumeThroughput :: "jsnumber option"
  nodeRootVolumeType :: "volume_type option"
  nodeUserData :: "string option"
  nodeUserDataOverride :: "string option"
  desiredCapacity :: "int option"
  minSize :: "int option"
  maxSize :: "int option"
  amiType :: "string option"
  amiId :: "string option"
  gpu :: "bool option"
  labels :: "(string \<times> string) list option"
  taints :: "(string \<times> Taint) list option"
  kubeletExtraArgs :: "string option"
  bootstrapExtraArgs :: "string option"
  version :: "string option"
  instanceProfile :: "string option"
  minRefreshPercentage :: "int option"

subsection \<open>Bootstrap payload: kubelet arguments\<close>

text \<open>Lines 634-653 (and 940-959, the same text): the array \<^verbatim>\<open>kubeletExtraArgs\<close> after
  the two \<^verbatim>\<open>push\<close>es.\<close>

definition label_parts :: "(string \<times> string) list \<Rightarrow> string list" where
  "label_parts ls = map (\<lambda>(key, v). key @ ''='' @ v) ls"

definition taint_parts :: "(string \<times> Taint) list \<Rightarrow> string list" where
  "taint_parts ts =
     map (\<lambda>(key, taint). key @ ''='' @ taint_value taint @ '':'' @ effect_string (taint_effect taint)) ts"

definition kubeletExtraArgsList :: "NodeGroupOptions \<Rightarrow> string list" where
  "kubeletExtraArgsList args =
     (let k0 = (if truthy_str (kubeletExtraArgs args)
                then js_split CHR '' '' (case kubeletExtraArgs args of Some s \<Rightarrow> s | None \<Rightarrow> [])
                else []);
          k1 = (case labels args of
                  None \<Rightarrow> k0
                | Some ls \<Rightarrow>
                    (let parts = label_parts ls
                     in if length parts > 0 then k0 @ [''--node-labels='' @ js_join '','' parts] else k0));
          k2 = (case taints args of
                  None \<Rightarrow> k1
                | Some ts \<Rightarrow>
                    (let parts = taint_parts ts
                     in if length parts > 0
                        then k1 @ [''--register-with-taints='' @ js_join '','' parts] else k1))
      in k2)"

text \<open>Lines 654-660 (and 960-966): the string \<^verbatim>\<open>bootstrapExtraArgs\<close>.\<close>

definition bootstrapExtraArgsString :: "NodeGroupOptions \<Rightarrow> string" where
  "bootstrapExtraArgsString args =
     (let b = (case bootstrapExtraArgs args of
                 None \<Rightarrow> []
               | Some s \<Rightarrow> if s \<noteq> [] then '' '' @ s else []);
          k = kubeletExtraArgsList args
      in if length k = 1 then b @ '' --kubelet-extra-args '' @ hd k
         else if length k > 1 then b @ '' --kubelet-extra-args '' @ SQ @ js_join '' '' k @ SQ
         else b)"

subsection \<open>Errors and resources\<close>

text \<open>One constructor for each \<^verbatim>\<open>throw new Error(...)\<close> of the file, in the order of the
  text, one for a failed provider lookup, and two for the errors that the constructor of
  \<^verbatim>\<open>netmask.Netmask\<close> throws.\<close>

datatype ng_error =
    InstanceProfileRequired
  | SecurityGroupAndTagsExclusive
  | PublicKeyAndKeyNameExclusive
  | AmiIdAndGpuExclusive
  | UserDataOverrideExclusive
  | ClusterIngressRuleRequired
  | IopsOnNonIo1
  | Io1IopsNotInteger
  | ThroughputOnNonGp3
  | Gp3ThroughputNotInteger
  | StackOutputMissing
  | RoleRequired
  | RoleAndRoleArnExclusive
  | RoleUndefined
  | RoleNotInInstanceRoles
  | LookupFailed string
  | InvalidNetAddress string
  | InvalidMask string

text \<open>The resources constructed by the provisioning functions. \<^verbatim>\<open>RandomSuffix\<close> is the
  resource behind \<^verbatim>\<open>randomSuffix\<close> (line 629), which is called with resource options; its
  file \<^verbatim>\<open>randomSuffix.ts\<close> is not among the sources.\<close>

datatype resource =
    SecurityGroup
  | SecurityGroupRule
  | KeyPair
  | RandomSuffix
  | LaunchConfiguration
  | CloudFormationStack
  | LaunchTemplate
  | AutoScalingGroup
  | EksNodeGroup

text \<open>\<^verbatim>\<open>CoreData\<close> (declared in \<^verbatim>\<open>cluster.ts\<close>), as far as the functions read it. Roles
  are given by their ARNs, the instance profile by its id.\<close>

record CoreData =
  cluster_name :: string
  cluster_endpoint :: string
  cluster_certificateAuthority_data :: string
  cluster_version :: string
  subnetIds :: "string list"
  privateSubnetIds :: "string list option"
  publicSubnetIds :: "string list option"
  core_instanceProfile :: "string option"
  core_nodeSecurityGroup :: "security_group option"
  nodeSecurityGroupTags :: "(string \<times> string) list option"
  instanceRoles :: "string list"

subsection \<open>Subnet classifier\<close>

text \<open>A CIDR block as the \<^verbatim>\<open>netmask\<close> package holds it after parsing
  \<^verbatim>\<open>a.b.c.d/n\<close>: the address as a 32-bit number and the number of network bits
  (at most 32; a plain address has 32).\<close>

record cidr =
  cidr_ip :: "32 word"
  cidr_bitmask :: nat

text \<open>The constructor \<^verbatim>\<open>new netmask.Netmask(s)\<close>. The package is not part of the
  repository; the model covers the notation of the provider, four decimal numbers up to 255
  separated by dots, with an optional \<^verbatim>\<open>/n\<close> in decimal. The string is cut at the first
  \<^verbatim>\<open>/\<close>; a missing or empty mask is 32; the address is read first, and a string that is
  not an address (the empty string of a route with an IPv6 or prefix-list destination
  among them) throws; then a mask that is not a number up to 32 throws. The other notations
  of the package (octal, hexadecimal, fewer than four parts, a dotted mask) are not modelled
  and are rejected here.\<close>

definition is_digit :: "char \<Rightarrow> bool" where
  "is_digit ch = (48 \<le> (of_char ch :: nat) \<and> (of_char ch :: nat) \<le> 57)"

definition parseDecimal :: "string \<Rightarrow> nat option" where
  "parseDecimal s =
     (if s \<noteq> [] \<and> list_all is_digit s \<and> (length s = 1 \<or> hd s \<noteq> CHR ''0'')
      then Some (foldl (\<lambda>n ch. 10 * n + (of_char ch - 48)) 0 s)
      else None)"

definition ip2long :: "string \<Rightarrow> 32 word option" where
  "ip2long s =
     (case map parseDecimal (js_split CHR ''.'' s) of
        [Some b0, Some b1, Some b2, Some b3] \<Rightarrow>
          if b0 \<le> 255 \<and> b1 \<le> 255 \<and> b2 \<le> 255 \<and> b3 \<le> 255
          then Some (push_bit 24 (of_nat b0) OR push_bit 16 (of_nat b1) OR
                     push_bit 8 (of_nat b2) OR of_nat b3)
          else None
      | _ \<Rightarrow> None)"

definition Netmask :: "string \<Rightarrow> ng_error + cidr" where
  "Netmask s =
     (case js_split CHR ''/'' s of
        [] \<Rightarrow> Inl (InvalidNetAddress s)
      | net # rest \<Rightarrow>
          (let mask = (case rest of [] \<Rightarrow> [] | m # ms \<Rightarrow> m);
               bitmask = (if mask = [] then Some 32 else parseDecimal mask)
           in case ip2long net of
                None \<Rightarrow> Inl (InvalidNetAddress net)
              | Some ip \<Rightarrow>
                  (case bitmask of
                     None \<Rightarrow> Inl (InvalidMask mask)
                   | Some b \<Rightarrow> if b \<le> 32 then Inr \<lparr>cidr_ip = ip, cidr_bitmask = b\<rparr>
                               else Inl (InvalidMask mask))))"

definition maskLong :: "cidr \<Rightarrow> 32 word" where
  "maskLong c = (if cidr_bitmask c > 0 then push_bit (32 - cidr_bitmask c) (-1) else 0)"

definition netLong :: "cidr \<Rightarrow> 32 word" where
  "netLong c = cidr_ip c AND maskLong c"

text \<open>The last address of the block (\<^verbatim>\<open>broadcast || last\<close>): \<^verbatim>\<open>netLong + size - 1\<close>.\<close>

definition lastLong :: "cidr \<Rightarrow> 32 word" where
  "lastLong c = netLong c + 2 ^ (32 - cidr_bitmask c) - 1"

definition contains_ip :: "cidr \<Rightarrow> 32 word \<Rightarrow> bool" where
  "contains_ip blk ip = (ip AND maskLong blk = netLong blk AND maskLong blk)"

text \<open>\<^verbatim>\<open>Netmask.contains\<close> of a block: its base and its last address are in the block.\<close>

definition contains :: "cidr \<Rightarrow> cidr \<Rightarrow> bool" where
  "contains blk c = (contains_ip blk (netLong c) \<and> contains_ip blk (lastLong c))"

text \<open>The three blocks of \<^verbatim>\<open>isPrivateCIDRBlock\<close>, \<^verbatim>\<open>10.0.0.0/8\<close>,
  \<^verbatim>\<open>172.16.0.0/12\<close> and \<^verbatim>\<open>192.168.0.0/16\<close>, as parsed.\<close>

definition privateA :: cidr where
  "privateA = \<lparr>cidr_ip = 0x0A000000, cidr_bitmask = 8\<rparr>"

definition privateB :: cidr where
  "privateB = \<lparr>cidr_ip = 0xAC100000, cidr_bitmask = 12\<rparr>"

definition privateC :: cidr where
  "privateC = \<lparr>cidr_ip = 0xC0A80000, cidr_bitmask = 16\<rparr>"

text \<open>\<^verbatim>\<open>contains\<close> parses its argument first, so the first of the three calls throws on
  a string that is not a block.\<close>

definition isPrivateCIDRBlock :: "string \<Rightarrow> ng_error + bool" where
  "isPrivateCIDRBlock cidrBlock =
     (case Netmask cidrBlock of
        Inl e \<Rightarrow> Inl e
      | Inr blk \<Rightarrow> Inr (contains privateA blk \<or> contains privateB blk \<or> contains privateC blk))"

text \<open>A route of a route table, as \<^verbatim>\<open>aws.ec2.getRouteTable\<close> returns it: the id of its
  gateway (empty when the target is not a gateway) and its IPv4 destination (empty when the
  destination is not an IPv4 block).\<close>

record route =
  gatewayId :: string
  cidrBlock :: string

text \<open>The provider lookups the file calls: \<^verbatim>\<open>aws.ec2.getRouteTable\<close> by subnet and by
  route table id, \<^verbatim>\<open>aws.ec2.getSubnet\<close> (the subnet's VPC), \<^verbatim>\<open>aws.ec2.getRouteTables\<close>
  (the ids of the main route tables of a VPC) and \<^verbatim>\<open>aws.getRegion\<close>.\<close>

record aws =
  getRouteTable_bySubnet :: "string \<Rightarrow> ng_error + route list"
  getRouteTable_byId :: "string option \<Rightarrow> ng_error + route list"
  getSubnet_vpcId :: "string \<Rightarrow> ng_error + string"
  getRouteTables_main :: "string \<Rightarrow> ng_error + string list"
  getRegion_name :: string

definition getRouteTableAsync :: "aws \<Rightarrow> string \<Rightarrow> ng_error + route list" where
  "getRouteTableAsync a subnetId =
     (case getRouteTable_bySubnet a subnetId of
        Inr routes \<Rightarrow> Inr routes
      | Inl e \<Rightarrow>
          (case getSubnet_vpcId a subnetId of
             Inl e1 \<Rightarrow> Inl e1
           | Inr vpcId \<Rightarrow>
               (case getRouteTables_main a vpcId of
                  Inl e2 \<Rightarrow> Inl e2
                | Inr ids \<Rightarrow> getRouteTable_byId a (case ids of [] \<Rightarrow> None | i # rest \<Rightarrow> Some i))))"

text \<open>Lines 1162-1163: \<^verbatim>\<open>find\<close> tests the routes in order and stops at the first match;
  \<^verbatim>\<open>&&\<close> parses the destination only of a route that has a gateway id.\<close>

fun hasInternetGatewayRoute :: "route list \<Rightarrow> ng_error + bool" where
  "hasInternetGatewayRoute [] = Inr False"
| "hasInternetGatewayRoute (r # routes) =
     (if gatewayId r \<noteq> []
      then (case isPrivateCIDRBlock (cidrBlock r) of
              Inl e \<Rightarrow> Inl e
            | Inr private \<Rightarrow> if \<not> private then Inr True else hasInternetGatewayRoute routes)
      else hasInternetGatewayRoute routes)"

text \<open>The loop of \<^verbatim>\<open>computeWorkerSubnets\<close>, with its two arrays.\<close>

fun classify_subnets ::
  "aws \<Rightarrow> string list \<Rightarrow> string list \<Rightarrow> string list \<Rightarrow> ng_error + (string list \<times> string list)" where
  "classify_subnets a [] publicSubnets privateSubnets = Inr (publicSubnets, privateSubnets)"
| "classify_subnets a (subnetId # rest) publicSubnets privateSubnets =
     (case getRouteTableAsync a subnetId of
        Inl e \<Rightarrow> Inl e
      | Inr routes \<Rightarrow>
          (case hasInternetGatewayRoute routes of
             Inl e \<Rightarrow> Inl e
           | Inr public \<Rightarrow>
               if public
               then classify_subnets a rest (publicSubnets @ [subnetId]) privateSubnets
               else classify_subnets a rest publicSubnets (privateSubnets @ [subnetId])))"

definition computeWorkerSubnets :: "aws \<Rightarrow> string list \<Rightarrow> ng_error + string list" where
  "computeWorkerSubnets a ids =
     (case classify_subnets a ids [] [] of
        Inl e \<Rightarrow> Inl e
      | Inr (publicSubnets, privateSubnets) \<Rightarrow>
          Inr (if length privateSubnets = 0 then publicSubnets else privateSubnets))"

text \<open>Lines 742-757 (and 1073-1088): the subnets of the worker group.\<close>

definition workerSubnetIds :: "aws \<Rightarrow> NodeGroupOptions \<Rightarrow> CoreData \<Rightarrow> ng_error + string list" where
  "workerSubnetIds a args c =
     (if nodeSubnetIds args \<noteq> None
      then Inr (case nodeSubnetIds args of Some ids \<Rightarrow> ids | None \<Rightarrow> [])
      else if privateSubnetIds c \<noteq> None
      then Inr (case privateSubnetIds c of Some ids \<Rightarrow> ids | None \<Rightarrow> [])
      else if publicSubnetIds c \<noteq> None
      then Inr (case publicSubnetIds c of Some ids \<Rightarrow> ids | None \<Rightarrow> [])
      else computeWorkerSubnets a (subnetIds c))"

subsection \<open>Validation\<close>

text \<open>Lines 563-573 (and 873-883): the three checks at the head of the function body.\<close>

definition userDataOverrideConflict :: "NodeGroupOptions \<Rightarrow> bool" where
  "userDataOverrideConflict args =
     (truthy_str (nodeUserDataOverride args) \<and>
      (truthy_str (nodeUserData args) \<or> truthy_obj (labels args) \<or> truthy_obj (taints args) \<or>
       truthy_str (kubeletExtraArgs args) \<or> truthy_str (bootstrapExtraArgs args)))"

definition exclusionChecks :: "NodeGroupOptions \<Rightarrow> ng_error + unit" where
  "exclusionChecks args =
     (if truthy_str (nodePublicKey args) \<and> truthy_str (keyName args)
      then Inl PublicKeyAndKeyNameExclusive
      else if truthy_str (amiId args) \<and> truthy_bool (gpu args)
      then Inl AmiIdAndGpuExclusive
      else if userDataOverrideConflict args
      then Inl UserDataOverrideExclusive
      else Inr ())"

text \<open>Lines 701-721 (and 1009-1029): the checks of the root volume.\<close>

definition numberString :: "jsnumber option \<Rightarrow> string" where
  "numberString v = (case v of None \<Rightarrow> ''undefined'' | Some n \<Rightarrow> toString n)"

definition rootVolumeChecks :: "NodeGroupOptions \<Rightarrow> ng_error + unit" where
  "rootVolumeChecks args =
     (if truthy_num (nodeRootVolumeIops args) \<and> nodeRootVolumeType args \<noteq> Some Io1
      then Inl IopsOnNonIo1
      else if nodeRootVolumeType args = Some Io1 \<and> truthy_num (nodeRootVolumeIops args) \<and>
              \<not> numeric_test (numberString (nodeRootVolumeIops args))
      then Inl Io1IopsNotInteger
      else if truthy_num (nodeRootVolumeThroughput args) \<and> nodeRootVolumeType args \<noteq> Some Gp3
      then Inl ThroughputOnNonGp3
      else if nodeRootVolumeType args = Some Gp3 \<and> truthy_num (nodeRootVolumeThroughput args) \<and>
              \<not> numeric_test (numberString (nodeRootVolumeThroughput args))
      then Inl Gp3ThroughputNotInteger
      else Inr ())"

text \<open>The two checks made inside \<^verbatim>\<open>core.apply\<close> (lines 547-561 and 857-871). The
  operator \<^verbatim>\<open>!==\<close> of lines 557 and 867 is applied to the \<^verbatim>\<open>id\<close> outputs of the two
  security group objects; an output is an object and each security group object has its own,
  so the test compares the identities of the two objects.\<close>

definition resolveInstanceProfile :: "NodeGroupOptions \<Rightarrow> CoreData \<Rightarrow> ng_error + string" where
  "resolveInstanceProfile args c =
     (if \<not> truthy_obj (instanceProfile args) \<and> \<not> truthy_obj (core_instanceProfile c)
      then Inl InstanceProfileRequired
      else (case instanceProfile args of
              Some p \<Rightarrow> Inr p
            | None \<Rightarrow> (case core_instanceProfile c of Some p \<Rightarrow> Inr p | None \<Rightarrow> Inl InstanceProfileRequired)))"

definition securityGroupTagsCheck :: "NodeGroupOptions \<Rightarrow> CoreData \<Rightarrow> ng_error + unit" where
  "securityGroupTagsCheck args c =
     (if truthy_obj (core_nodeSecurityGroup c) \<and> truthy_obj (nodeSecurityGroup args) \<and>
         truthy_obj (nodeSecurityGroupTags c) \<and>
         map_option sg_object (core_nodeSecurityGroup c) \<noteq> map_option sg_object (nodeSecurityGroup args)
      then Inl SecurityGroupAndTagsExclusive
      else Inr ())"

subsection \<open>Security group, AMI, user data\<close>

datatype security_group_pair = Supplied security_group string | Created

text \<open>Modelled from the spec: \<^verbatim>\<open>createNodeGroupSecurityGroup\<close> is defined in
  \<^verbatim>\<open>securitygroup.ts\<close>, which is not among the sources. By section 4.3 it creates a new
  worker security group and a matching ingress rule, and returns the pair.\<close>

definition createNodeGroupSecurityGroup :: "resource list \<times> security_group_pair" where
  "createNodeGroupSecurityGroup = ([SecurityGroup, SecurityGroupRule], Created)"

text \<open>Lines 589-608 (and 899-915).\<close>

definition resolveSecurityGroup :: "NodeGroupOptions \<Rightarrow> resource list \<times> (ng_error + security_group_pair)" where
  "resolveSecurityGroup args =
     (case nodeSecurityGroup args of
        Some sg \<Rightarrow>
          (case clusterIngressRule args of
             None \<Rightarrow> ([], Inl ClusterIngressRuleRequired)
           | Some rule \<Rightarrow> ([], Inr (Supplied sg rule)))
      | None \<Rightarrow> (fst createNodeGroupSecurityGroup, Inr (snd createNodeGroupSecurityGroup)))"

text \<open>Lines 620-627 (and 928-935): the key of the instances.\<close>

datatype key_ref = KeyName string | KeyPairKeyName

definition keyResources :: "NodeGroupOptions \<Rightarrow> resource list" where
  "keyResources args = (if truthy_str (nodePublicKey args) then [KeyPair] else [])"

definition resolveKeyName :: "NodeGroupOptions \<Rightarrow> key_ref option" where
  "resolveKeyName args =
     (if truthy_str (nodePublicKey args) then Some KeyPairKeyName
      else map_option KeyName (keyName args))"

text \<open>Lines 681-691 (and 989-999). A value of \<^verbatim>\<open>args.amiType ?? args.gpu\<close> is a string, a
  boolean or \<^verbatim>\<open>undefined\<close>. The conditional operator binds weaker than \<^verbatim>\<open>??\<close>, so the
  line reads \<^verbatim>\<open>(args.amiType ?? args.gpu) ? "amazon-linux-2-gpu" : "amazon-linux-2"\<close>.\<close>

datatype js_value = JSString string | JSBoolean bool | JSUndefined

fun truthy :: "js_value \<Rightarrow> bool" where
  "truthy (JSString s) = (s \<noteq> [])"
| "truthy (JSBoolean b) = b"
| "truthy JSUndefined = False"

definition amiType_or_gpu :: "NodeGroupOptions \<Rightarrow> js_value" where
  "amiType_or_gpu args =
     (case amiType args of
        Some t \<Rightarrow> JSString t
      | None \<Rightarrow> (case gpu args of Some b \<Rightarrow> JSBoolean b | None \<Rightarrow> JSUndefined))"

definition selectedAmiType :: "NodeGroupOptions \<Rightarrow> string" where
  "selectedAmiType args =
     (if truthy (amiType_or_gpu args) then ''amazon-linux-2-gpu'' else ''amazon-linux-2'')"

definition resolvedVersion :: "NodeGroupOptions \<Rightarrow> CoreData \<Rightarrow> string" where
  "resolvedVersion args c =
     (if truthy_str (version args) then (case version args of Some v \<Rightarrow> v | None \<Rightarrow> [])
      else cluster_version c)"

definition parameterName :: "NodeGroupOptions \<Rightarrow> CoreData \<Rightarrow> string" where
  "parameterName args c =
     ''/aws/service/eks/optimized-ami/'' @ resolvedVersion args c @ ''/'' @ selectedAmiType args @
     ''/recommended/image_id''"

text \<open>The image of the instances: the given id, or the value of a parameter of the
  parameter store, named by its path.\<close>

datatype image_source = ImageId string | SsmParameterValue string

definition resolveAmiId :: "NodeGroupOptions \<Rightarrow> CoreData \<Rightarrow> image_source" where
  "resolveAmiId args c =
     (if truthy_str (amiId args) then ImageId (case amiId args of Some i \<Rightarrow> i | None \<Rightarrow> [])
      else SsmParameterValue (parameterName args c))"

text \<open>Lines 664-671 (and 973-980): the custom user data, staged through a here-document.\<close>

definition wrapCustomUserData :: "string \<Rightarrow> string \<Rightarrow> string" where
  "wrapCustomUserData stackName customUserData =
     (if customUserData \<noteq> []
      then ''cat >/opt/user-data <<'' @ stackName @ ''-user-data'' @ NL @
           customUserData @ NL @
           stackName @ ''-user-data'' @ NL @
           ''chmod +x /opt/user-data'' @ NL @
           ''/opt/user-data'' @ NL
      else customUserData)"

definition userDataArg :: "NodeGroupOptions \<Rightarrow> string" where
  "userDataArg args = (if truthy_str (nodeUserData args)
                       then (case nodeUserData args of Some u \<Rightarrow> u | None \<Rightarrow> []) else [])"

definition bootstrapLine :: "NodeGroupOptions \<Rightarrow> CoreData \<Rightarrow> string" where
  "bootstrapLine args c =
     ''/etc/eks/bootstrap.sh --apiserver-endpoint '' @ DQ @ cluster_endpoint c @ DQ @
     '' --b64-cluster-ca '' @ DQ @ cluster_certificateAuthority_data c @ DQ @
     '' '' @ DQ @ cluster_name c @ DQ @ bootstrapExtraArgsString args"

text \<open>Lines 662-679: the script of the launch configuration, with the completion signal.\<close>

definition userdata :: "aws \<Rightarrow> string \<Rightarrow> NodeGroupOptions \<Rightarrow> CoreData \<Rightarrow> string" where
  "userdata a stackName args c =
     ''#!/bin/bash'' @ NL @ NL @
     bootstrapLine args c @ NL @
     wrapCustomUserData stackName (userDataArg args) @ NL @
     ''/opt/aws/bin/cfn-signal --exit-code $? --stack '' @ stackName @
     '' --resource NodeGroup --region '' @ getRegion_name a @ NL"

text \<open>\<^verbatim>\<open>Buffer.from(x, "utf-8").toString("base64")\<close> on the bytes of the string.\<close>

definition b64chars :: string where
  "b64chars = ''ABCDEFGHIJKLMNOPQRSTUVWXYZabcdefghijklmnopqrstuvwxyz0123456789+/''"

fun b64encode :: "nat list \<Rightarrow> string" where
  "b64encode [] = []"
| "b64encode [x] =
     [b64chars ! (x div 4), b64chars ! ((x mod 4) * 16), CHR ''='', CHR ''='']"
| "b64encode [x, y] =
     [b64chars ! (x div 4), b64chars ! ((x mod 4) * 16 + y div 16),
      b64chars ! ((y mod 16) * 4), CHR ''='']"
| "b64encode (x # y # z # rest) =
     [b64chars ! (x div 4), b64chars ! ((x mod 4) * 16 + y div 16),
      b64chars ! ((y mod 16) * 4 + z div 64), b64chars ! (z mod 64)] @ b64encode rest"

definition toBase64 :: "string \<Rightarrow> string" where
  "toBase64 s = b64encode (map of_char s)"

text \<open>Lines 968-987: the script of the launch template, or the override; in base64.\<close>

definition userdataV2 :: "string \<Rightarrow> NodeGroupOptions \<Rightarrow> CoreData \<Rightarrow> string" where
  "userdataV2 name args c =
     toBase64
       (if nodeUserDataOverride args \<noteq> None \<and> nodeUserDataOverride args \<noteq> Some []
        then (case nodeUserDataOverride args of Some u \<Rightarrow> u | None \<Rightarrow> [])
        else ''#!/bin/bash'' @ NL @ NL @
             bootstrapLine args c @ NL @
             wrapCustomUserData name (userDataArg args) @ NL)"

subsection \<open>Self-managed node group: launch configuration and stack\<close>

text \<open>What \<^verbatim>\<open>createNodeGroupInternal\<close> hands to the launch configuration and to the
  template of the stack. The two fields of sum type are deferred values (lines 547-561).\<close>

record NodeGroupData =
  nodeSecurityGroupPair :: security_group_pair
  iamInstanceProfile :: "ng_error + string"
  securityGroupTagsChecked :: "ng_error + unit"
  lc_keyName :: "key_ref option"
  lc_imageId :: image_source
  lc_spotPrice :: "string option"
  lc_userData :: string
  cfn_vpcZoneIdentifier :: "ng_error + string list"
  cfn_desiredCapacity :: int
  cfn_minSize :: int
  cfn_maxSize :: int
  cfn_minInstancesInService :: int

text \<open>Lines 759-772.\<close>

definition minInstancesInService :: "NodeGroupOptions \<Rightarrow> int" where
  "minInstancesInService args = (if truthy_str (spotPrice args) then 0 else 1)"

definition defaultCapacity :: "NodeGroupOptions \<Rightarrow> NodeGroupOptions" where
  "defaultCapacity args =
     (let args1 = (if desiredCapacity args = None then args\<lparr>desiredCapacity := Some 2\<rparr> else args);
          args2 = (if minSize args1 = None then args1\<lparr>minSize := Some 1\<rparr> else args1);
          args3 = (if maxSize args2 = None then args2\<lparr>maxSize := Some 2\<rparr> else args2)
      in args3)"

text \<open>The body of \<^verbatim>\<open>createNodeGroupInternal\<close> (lines 547-837). \<^verbatim>\<open>stackName\<close> is the
  name that \<^verbatim>\<open>randomSuffix\<close> returns (line 629, after the key pair and before the checks
  of the root volume). The tags and the name read from the outputs of the stack are left
  out.\<close>

definition createNodeGroupInternal ::
  "aws \<Rightarrow> string \<Rightarrow> NodeGroupOptions \<Rightarrow> CoreData \<Rightarrow> resource list \<times> (ng_error + NodeGroupData)" where
  "createNodeGroupInternal a stackName args c =
     (case exclusionChecks args of
        Inl e \<Rightarrow> ([], Inl e)
      | Inr u \<Rightarrow>
          (case resolveSecurityGroup args of
             (rs, Inl e) \<Rightarrow> (rs, Inl e)
           | (rs, Inr pair) \<Rightarrow>
               (case rootVolumeChecks args of
                  Inl e \<Rightarrow> (rs @ keyResources args @ [RandomSuffix], Inl e)
                | Inr u \<Rightarrow>
                    (let args' = defaultCapacity args
                     in (rs @ keyResources args @
                         [RandomSuffix, LaunchConfiguration, CloudFormationStack],
                         Inr \<lparr>nodeSecurityGroupPair = pair,
                              iamInstanceProfile = resolveInstanceProfile args c,
                              securityGroupTagsChecked = securityGroupTagsCheck args c,
                              lc_keyName = resolveKeyName args,
                              lc_imageId = resolveAmiId args c,
                              lc_spotPrice = spotPrice args,
                              lc_userData =
                                (if truthy_str (nodeUserDataOverride args)
                                 then (case nodeUserDataOverride args of Some u \<Rightarrow> u | None \<Rightarrow> [])
                                 else userdata a stackName args c),
                              cfn_vpcZoneIdentifier = workerSubnetIds a args c,
                              cfn_desiredCapacity = (case desiredCapacity args' of Some n \<Rightarrow> n | None \<Rightarrow> 0),
                              cfn_minSize = (case minSize args' of Some n \<Rightarrow> n | None \<Rightarrow> 0),
                              cfn_maxSize = (case maxSize args' of Some n \<Rightarrow> n | None \<Rightarrow> 0),
                              cfn_minInstancesInService = minInstancesInService args\<rparr>)))))"

subsection \<open>Self-managed node group: launch template and autoscaling group\<close>

record NodeGroupV2Data =
  v2_nodeSecurityGroupPair :: security_group_pair
  v2_iamInstanceProfile :: "ng_error + string"
  v2_securityGroupTagsChecked :: "ng_error + unit"
  lt_keyName :: "key_ref option"
  lt_imageId :: image_source
  lt_spotMaxPrice :: "string option"
  lt_userData :: string
  asg_vpcZoneIdentifiers :: "ng_error + string list"
  asg_minSize :: int
  asg_maxSize :: int
  asg_desiredCapacity :: int
  asg_minHealthyPercentage :: int

text \<open>The body of \<^verbatim>\<open>createNodeGroupV2Internal\<close> (lines 857-1118); the tags and the device
  name of the image are left out, and the instance profile stands for its ARN.\<close>

definition createNodeGroupV2Internal ::
  "aws \<Rightarrow> string \<Rightarrow> NodeGroupOptions \<Rightarrow> CoreData \<Rightarrow> resource list \<times> (ng_error + NodeGroupV2Data)" where
  "createNodeGroupV2Internal a name args c =
     (case exclusionChecks args of
        Inl e \<Rightarrow> ([], Inl e)
      | Inr u \<Rightarrow>
          (case resolveSecurityGroup args of
             (rs, Inl e) \<Rightarrow> (rs, Inl e)
           | (rs, Inr pair) \<Rightarrow>
               (case rootVolumeChecks args of
                  Inl e \<Rightarrow> (rs @ keyResources args, Inl e)
                | Inr u \<Rightarrow>
                    (rs @ keyResources args @ [LaunchTemplate, AutoScalingGroup],
                     Inr \<lparr>v2_nodeSecurityGroupPair = pair,
                          v2_iamInstanceProfile = resolveInstanceProfile args c,
                          v2_securityGroupTagsChecked = securityGroupTagsCheck args c,
                          lt_keyName = resolveKeyName args,
                          lt_imageId = resolveAmiId args c,
                          lt_spotMaxPrice = (if truthy_str (spotPrice args) then spotPrice args else None),
                          lt_userData = userdataV2 name args c,
                          asg_vpcZoneIdentifiers = workerSubnetIds a args c,
                          asg_minSize = (case minSize args of Some n \<Rightarrow> n | None \<Rightarrow> 1),
                          asg_maxSize = (case maxSize args of Some n \<Rightarrow> n | None \<Rightarrow> 2),
                          asg_desiredCapacity = (case desiredCapacity args of Some n \<Rightarrow> n | None \<Rightarrow> 2),
                          asg_minHealthyPercentage =
                            (case minRefreshPercentage args of Some n \<Rightarrow> n | None \<Rightarrow> 50)\<rparr>))))"

subsection \<open>Managed node group\<close>

text \<open>The role options of \<^verbatim>\<open>ManagedNodeGroupOptions\<close>; a role object is given by its ARN.\<close>

record ManagedNodeGroupOptions =
  nodeRoleArn :: "string option"
  nodeRole :: "string option"

record ManagedNodeGroupData =
  mng_nodeRoleArn :: string
  nodegroupRoleChecked :: "ng_error + unit"

text \<open>Lines 1394-1415: the role is looked up among the ARNs of the instance roles, in an
  \<^verbatim>\<open>apply\<close> callback; the callback throws when \<^verbatim>\<open>find\<close> returns a falsy value.\<close>

definition nodegroupRoleCheck :: "string list \<Rightarrow> string \<Rightarrow> ng_error + unit" where
  "nodegroupRoleCheck roles rArn =
     (case find (\<lambda>r. r = rArn) roles of
        None \<Rightarrow> Inl RoleNotInInstanceRoles
      | Some role \<Rightarrow> if role = [] then Inl RoleNotInInstanceRoles else Inr ())"

text \<open>Lines 1374-1415 and the node group of line 1444; subnets and scaling are left out.\<close>

definition createManagedNodeGroupInternal ::
  "ManagedNodeGroupOptions \<Rightarrow> CoreData \<Rightarrow> resource list \<times> (ng_error + ManagedNodeGroupData)" where
  "createManagedNodeGroupInternal args c =
     (if \<not> truthy_obj (nodeRole args) \<and> \<not> truthy_str (nodeRoleArn args)
      then ([], Inl RoleRequired)
      else if truthy_obj (nodeRole args) \<and> truthy_str (nodeRoleArn args)
      then ([], Inl RoleAndRoleArnExclusive)
      else (case (if truthy_str (nodeRoleArn args)
                  then (case nodeRoleArn args of Some arn \<Rightarrow> Inr arn | None \<Rightarrow> Inl RoleUndefined)
                  else (case nodeRole args of Some arn \<Rightarrow> Inr arn | None \<Rightarrow> Inl RoleUndefined)) of
              Inl e \<Rightarrow> ([], Inl e)
            | Inr roleArn \<Rightarrow>
                ([EksNodeGroup],
                 Inr \<lparr>mng_nodeRoleArn = roleArn,
                      nodegroupRoleChecked = nodegroupRoleCheck (instanceRoles c) roleArn\<rparr>)))"

subsection \<open>Outcome of a provisioning call\<close>

text \<open>A call fails when the body throws or when one of its deferred values is rejected.\<close>

definition nodeGroupFailed :: "resource list \<times> (ng_error + NodeGroupData) \<Rightarrow> bool" where
  "nodeGroupFailed r =
     (case snd r of
        Inl e \<Rightarrow> True
      | Inr d \<Rightarrow> isl (iamInstanceProfile d) \<or> isl (securityGroupTagsChecked d) \<or>
                 isl (cfn_vpcZoneIdentifier d))"

definition nodeGroupV2Failed :: "resource list \<times> (ng_error + NodeGroupV2Data) \<Rightarrow> bool" where
  "nodeGroupV2Failed r =
     (case snd r of
        Inl e \<Rightarrow> True
      | Inr d \<Rightarrow> isl (v2_iamInstanceProfile d) \<or> isl (v2_securityGroupTagsChecked d) \<or>
                 isl (asg_vpcZoneIdentifiers d))"

definition managedNodeGroupFailed :: "resource list \<times> (ng_error + ManagedNodeGroupData) \<Rightarrow> bool" where
  "managedNodeGroupFailed r =
     (case snd r of
        Inl e \<Rightarrow> True
      | Inr d \<Rightarrow> isl (nodegroupRoleChecked d))"

subsection \<open>Reference definitions and sample inputs\<close>

text \<open>The options object \<^verbatim>\<open>{}\<close>.\<close>

definition noOptions :: NodeGroupOptions where
  "noOptions =
     \<lparr>nodeSubnetIds = None, spotPrice = None, nodeSecurityGroup = None, clusterIngressRule = None,
      nodePublicKey = None, keyName = None, nodeRootVolumeIops = None,
      nodeRootVolumeThroughput = None, nodeRootVolumeType = None, nodeUserData = None,
      nodeUserDataOverride = None, desiredCapacity = None, minSize = None, maxSize = None,
      amiType = None, amiId = None, gpu = None, labels = None, taints = None,
      kubeletExtraArgs = None, bootstrapExtraArgs = None, version = None, instanceProfile = None,
      minRefreshPercentage = None\<rparr>"

text \<open>A cluster with an instance profile, one instance role and two subnets, and a provider
  in which the first subnet routes \<^verbatim>\<open>0.0.0.0/0\<close> to an internet gateway and the second
  routes it to a NAT gateway (no gateway id).\<close>

definition sampleCore :: CoreData where
  "sampleCore =
     \<lparr>cluster_name = ''c1'', cluster_endpoint = ''https://api'', 
      cluster_certificateAuthority_data = ''Q0E='', cluster_version = ''1.21'',
      subnetIds = [''subnet-a'', ''subnet-b''], privateSubnetIds = None, publicSubnetIds = None,
      core_instanceProfile = Some ''profile-1'', core_nodeSecurityGroup = None,
      nodeSecurityGroupTags = None, instanceRoles = [''arn:aws:iam::1:role/r1'']\<rparr>"

definition sampleAws :: aws where
  "sampleAws =
     \<lparr>getRouteTable_bySubnet =
        (\<lambda>s. if s = ''subnet-a''
             then Inr [\<lparr>gatewayId = ''local'', cidrBlock = ''10.0.0.0/16''\<rparr>,
                       \<lparr>gatewayId = ''igw-1'', cidrBlock = ''0.0.0.0/0''\<rparr>]
             else if s = ''subnet-b''
             then Inr [\<lparr>gatewayId = ''local'', cidrBlock = ''10.0.0.0/16''\<rparr>,
                       \<lparr>gatewayId = [], cidrBlock = ''0.0.0.0/0''\<rparr>]
             else Inl (LookupFailed s)),
      getRouteTable_byId = (\<lambda>i. Inl (LookupFailed ''route table'')),
      getSubnet_vpcId = (\<lambda>s. Inl (LookupFailed s)),
      getRouteTables_main = (\<lambda>v. Inl (LookupFailed v)),
      getRegion_name = ''us-west-2''\<rparr>"

text \<open>The composition of the kubelet arguments in the words of the specification, with the
  split at every single space that the code makes.\<close>

definition explicitTokens :: "string option \<Rightarrow> string list" where
  "explicitTokens v = (case v of None \<Rightarrow> [] | Some s \<Rightarrow> if s = [] then [] else js_split CHR '' '' s)"

definition nodeLabelsToken :: "(string \<times> string) list option \<Rightarrow> string list" where
  "nodeLabelsToken v =
     (case v of
        None \<Rightarrow> []
      | Some ls \<Rightarrow> if ls = [] then []
                  else [''--node-labels='' @ js_join '','' (map (\<lambda>kv. fst kv @ ''='' @ snd kv) ls)])"

definition registerWithTaintsToken :: "(string \<times> Taint) list option \<Rightarrow> string list" where
  "registerWithTaintsToken v =
     (case v of
        None \<Rightarrow> []
      | Some ts \<Rightarrow> if ts = [] then []
                  else [''--register-with-taints='' @
                        js_join '','' (map (\<lambda>kt. fst kt @ ''='' @ taint_value (snd kt) @ '':'' @
                                                 effect_string (taint_effect (snd kt))) ts)])"

fun kubeletFlag :: "string list \<Rightarrow> string" where
  "kubeletFlag [] = []"
| "kubeletFlag [tok] = '' --kubelet-extra-args '' @ tok"
| "kubeletFlag (tok1 # tok2 # toks) =
     '' --kubelet-extra-args '' @ SQ @ js_join '' '' (tok1 # tok2 # toks) @ SQ"

text \<open>A split on whitespace, as the specification words it: the tokens are the maximal runs
  of characters other than space, tab, line feed, carriage return, vertical tab and form feed.\<close>

definition is_whitespace :: "char \<Rightarrow> bool" where
  "is_whitespace ch = (ch \<in> set [CHR '' '', CHR 0x09, CHR 0x0A, CHR 0x0B, CHR 0x0C, CHR 0x0D])"

fun whitespaceTokens :: "string \<Rightarrow> string \<Rightarrow> string list" where
  "whitespaceTokens cur [] = (if cur = [] then [] else [cur])"
| "whitespaceTokens cur (x # xs) =
     (if is_whitespace x then (if cur = [] then [] else [cur]) @ whitespaceTokens [] xs
      else whitespaceTokens (cur @ [x]) xs)"

definition splitOnWhitespace :: "string \<Rightarrow> string list" where
  "splitOnWhitespace s = whitespaceTokens [] s"

text \<open>The effective route table of a subnet, in the words of section 4.2: the table of its
  explicit association; otherwise the main route table of its VPC.\<close>

definition mainRouteTable :: "aws \<Rightarrow> string \<Rightarrow> ng_error + route list" where
  "mainRouteTable a subnetId =
     (case getSubnet_vpcId a subnetId of
        Inl e \<Rightarrow> Inl e
      | Inr vpcId \<Rightarrow>
          (case getRouteTables_main a vpcId of
             Inl e \<Rightarrow> Inl e
           | Inr ids \<Rightarrow> getRouteTable_byId a (if ids = [] then None else Some (hd ids))))"

definition effectiveRouteTable :: "aws \<Rightarrow> string \<Rightarrow> ng_error + route list" where
  "effectiveRouteTable a subnetId =
     (if isl (getRouteTable_bySubnet a subnetId) then mainRouteTable a subnetId
      else getRouteTable_bySubnet a subnetId)"

text \<open>The three private ranges as ranges of addresses: a block is inside one of them when its
  first and its last address are.\<close>

definition insidePrivateRange :: "cidr \<Rightarrow> bool" where
  "insidePrivateRange blk =
     ((0x0A000000 \<le> netLong blk \<and> netLong blk \<le> 0x0AFFFFFF \<and>
       0x0A000000 \<le> lastLong blk \<and> lastLong blk \<le> 0x0AFFFFFF) \<or>
      (0xAC100000 \<le> netLong blk \<and> netLong blk \<le> 0xAC1FFFFF \<and>
       0xAC100000 \<le> lastLong blk \<and> lastLong blk \<le> 0xAC1FFFFF) \<or>
      (0xC0A80000 \<le> netLong blk \<and> netLong blk \<le> 0xC0A8FFFF \<and>
       0xC0A80000 \<le> lastLong blk \<and> lastLong blk \<le> 0xC0A8FFFF))"

definition destinationInsidePrivateRange :: "string \<Rightarrow> bool" where
  "destinationInsidePrivateRange dest =
     (case Netmask dest of Inl e \<Rightarrow> False | Inr blk \<Rightarrow> insidePrivateRange blk)"

text \<open>The test the code makes on a route table, in closed form: some route has a gateway id,
  of whatever kind of gateway, and a destination outside the private ranges.\<close>

definition hasGatewayRouteOutsidePrivate :: "route list \<Rightarrow> bool" where
  "hasGatewayRouteOutsidePrivate routes =
     list_ex (\<lambda>r. gatewayId r \<noteq> [] \<and> \<not> destinationInsidePrivateRange (cidrBlock r)) routes"

text \<open>A subnet is public, in the words of the specification: its route table has a route
  whose target is an internet gateway and whose destination is not inside one of the three
  private ranges. The id of an internet gateway starts with \<^verbatim>\<open>igw-\<close>; the other ids that
  the field \<^verbatim>\<open>gatewayId\<close> of the provider holds are those of virtual private gateways
  (\<^verbatim>\<open>vgw-\<close>) and \<^verbatim>\<open>local\<close>.\<close>

definition isInternetGatewayId :: "string \<Rightarrow> bool" where
  "isInternetGatewayId g = (take 4 g = ''igw-'')"

definition hasInternetGatewayRouteOutsidePrivate :: "route list \<Rightarrow> bool" where
  "hasInternetGatewayRouteOutsidePrivate routes =
     list_ex (\<lambda>r. isInternetGatewayId (gatewayId r) \<and>
                    \<not> destinationInsidePrivateRange (cidrBlock r)) routes"

definition isPublicSubnet :: "aws \<Rightarrow> string \<Rightarrow> bool" where
  "isPublicSubnet a subnetId =
     (case effectiveRouteTable a subnetId of
        Inl e \<Rightarrow> False
      | Inr routes \<Rightarrow> hasInternetGatewayRouteOutsidePrivate routes)"

text \<open>The classifier of section 4.2: the private candidates if there is one, otherwise all
  the candidates.\<close>

definition classify :: "aws \<Rightarrow> string list \<Rightarrow> string list" where
  "classify a ids =
     (if list_ex (\<lambda>s. \<not> isPublicSubnet a s) ids
      then filter (\<lambda>s. \<not> isPublicSubnet a s) ids
      else ids)"

text \<open>A provider with two subnets: the first routes \<^verbatim>\<open>0.0.0.0/0\<close> to a virtual private
  gateway; the second has no route table of its own, and the main route table of its VPC
  routes \<^verbatim>\<open>0.0.0.0/0\<close> to an internet gateway. And one with a subnet whose table has, before
  its IPv4 default route, the IPv6 default route to the internet gateway, whose
  \<^verbatim>\<open>cidrBlock\<close> is empty.\<close>

definition vpnAws :: aws where
  "vpnAws =
     \<lparr>getRouteTable_bySubnet =
        (\<lambda>s. if s = ''subnet-vpn''
             then Inr [\<lparr>gatewayId = ''local'', cidrBlock = ''10.0.0.0/16''\<rparr>,
                       \<lparr>gatewayId = ''vgw-1'', cidrBlock = ''0.0.0.0/0''\<rparr>]
             else Inl (LookupFailed s)),
      getRouteTable_byId =
        (\<lambda>i. if i = Some ''rtb-main''
             then Inr [\<lparr>gatewayId = ''local'', cidrBlock = ''10.0.0.0/16''\<rparr>,
                       \<lparr>gatewayId = ''igw-1'', cidrBlock = ''0.0.0.0/0''\<rparr>]
             else Inl (LookupFailed ''route table'')),
      getSubnet_vpcId = (\<lambda>s. if s = ''subnet-igw'' then Inr ''vpc-1'' else Inl (LookupFailed s)),
      getRouteTables_main = (\<lambda>v. if v = ''vpc-1'' then Inr [''rtb-main''] else Inl (LookupFailed v)),
      getRegion_name = ''us-west-2''\<rparr>"

definition ipv6Aws :: aws where
  "ipv6Aws =
     \<lparr>getRouteTable_bySubnet =
        (\<lambda>s. if s = ''subnet-v6''
             then Inr [\<lparr>gatewayId = ''local'', cidrBlock = ''10.0.0.0/16''\<rparr>,
                       \<lparr>gatewayId = ''igw-1'', cidrBlock = []\<rparr>,
                       \<lparr>gatewayId = ''igw-1'', cidrBlock = ''0.0.0.0/0''\<rparr>]
             else Inl (LookupFailed s)),
      getRouteTable_byId = (\<lambda>i. Inl (LookupFailed ''route table'')),
      getSubnet_vpcId = (\<lambda>s. Inl (LookupFailed s)),
      getRouteTables_main = (\<lambda>v. Inl (LookupFailed v)),
      getRegion_name = ''us-west-2''\<rparr>"

text \<open>The first defined value of a list of optional values, for the priority order of the
  subnet sources.\<close>

definition firstDefined :: "'a option list \<Rightarrow> 'a option" where
  "firstDefined vs = (case filter (\<lambda>v. v \<noteq> None) vs of [] \<Rightarrow> None | v # rest \<Rightarrow> v)"

section \<open>Properties\<close>

subsection \<open>Kubelet arguments\<close>

lemma js_split_nonempty: "js_split c s \<noteq> []"
  by (induction s) (auto split: list.splits)

lemma js_join_split: "js_join [c] (js_split c s) = s"
proof (induction s)
  case Nil
  then show ?case by simp
next
  case (Cons x xs)
  then show ?case
    by (cases "js_split c xs"; cases "tl (js_split c xs)") (auto split: list.splits)
qed

lemma js_split_no_separator: "list_all (\<lambda>t. c \<notin> set t) (js_split c s)"
  by (induction s) (auto split: list.splits)

lemma label_parts_eq: "label_parts ls = map (\<lambda>kv. fst kv @ ''='' @ snd kv) ls"
  by (simp add: label_parts_def case_prod_unfold)

lemma taint_parts_eq:
  "taint_parts ts =
   map (\<lambda>kt. fst kt @ ''='' @ taint_value (snd kt) @ '':'' @ effect_string (taint_effect (snd kt))) ts"
  by (simp add: taint_parts_def case_prod_unfold)

lemma kubeletExtraArgsList_eq:
  "kubeletExtraArgsList args =
   explicitTokens (kubeletExtraArgs args) @ nodeLabelsToken (labels args) @
   registerWithTaintsToken (taints args)"
  by (simp add: kubeletExtraArgsList_def explicitTokens_def nodeLabelsToken_def
      registerWithTaintsToken_def truthy_str_def label_parts_eq taint_parts_eq Let_def
      split: option.splits)

lemma kubeletFlag_cases:
  "(if length k = 1 then b @ '' --kubelet-extra-args '' @ hd k
    else if length k > 1 then b @ '' --kubelet-extra-args '' @ SQ @ js_join '' '' k @ SQ
    else b) = b @ kubeletFlag k"
  by (cases k rule: kubeletFlag.cases) simp_all

text \<open>C1 (as amended): the token list is the explicit \<^verbatim>\<open>kubeletExtraArgs\<close> cut at every
  single space (so that joining the pieces with a space gives the string back, and no piece
  holds a space), followed by the \<^verbatim>\<open>--node-labels=\<close> token when the label mapping has
  entries and by the \<^verbatim>\<open>--register-with-taints=\<close> token when the taint mapping has
  entries. The flag is left out for no token, passed unquoted for one token and passed as one
  single-quoted, space-joined argument for two or more.\<close>

theorem kubelet_extra_args_composition:
  "kubeletExtraArgsList args =
     explicitTokens (kubeletExtraArgs args) @ nodeLabelsToken (labels args) @
     registerWithTaintsToken (taints args) \<and>
   bootstrapExtraArgsString args =
     (case bootstrapExtraArgs args of None \<Rightarrow> [] | Some b \<Rightarrow> if b = [] then [] else '' '' @ b) @
     kubeletFlag (kubeletExtraArgsList args) \<and>
   js_join '' '' (explicitTokens (Some s)) = s \<and>
   list_all (\<lambda>t. CHR '' '' \<notin> set t) (explicitTokens (Some s))"
proof -
  have "bootstrapExtraArgsString args =
     (case bootstrapExtraArgs args of None \<Rightarrow> [] | Some b \<Rightarrow> if b = [] then [] else '' '' @ b) @
     kubeletFlag (kubeletExtraArgsList args)"
    unfolding bootstrapExtraArgsString_def Let_def kubeletFlag_cases
    by (simp split: option.splits)
  moreover have "js_join '' '' (explicitTokens (Some s)) = s"
    by (simp add: explicitTokens_def js_join_split)
  moreover have "list_all (\<lambda>t. CHR '' '' \<notin> set t) (explicitTokens (Some s))"
    by (simp add: explicitTokens_def js_split_no_separator)
  ultimately show ?thesis
    by (simp add: kubeletExtraArgsList_eq)
qed

theorem kubelet_extra_args_composition_witness:
  "kubeletExtraArgsList
     (noOptions\<lparr>kubeletExtraArgs := Some ''--port=10251 --address=0.0.0.0'',
               labels := Some [(''role'', ''web''), (''zone'', ''b'')],
               taints := Some [(''gpu'', \<lparr>taint_value = ''true'', taint_effect = NoSchedule\<rparr>)]\<rparr>) =
     [''--port=10251'', ''--address=0.0.0.0'', ''--node-labels=role=web,zone=b'',
      ''--register-with-taints=gpu=true:NoSchedule''] \<and>
   bootstrapExtraArgsString (noOptions\<lparr>labels := Some [(''role'', ''web'')]\<rparr>) =
     '' --kubelet-extra-args --node-labels=role=web'' \<and>
   bootstrapExtraArgsString (noOptions\<lparr>kubeletExtraArgs := Some ''--port=10251 --address=0.0.0.0''\<rparr>) =
     '' --kubelet-extra-args '' @ SQ @ ''--port=10251 --address=0.0.0.0'' @ SQ \<and>
   bootstrapExtraArgsString noOptions = []"
  using kubelet_extra_args_composition
          [of "noOptions\<lparr>kubeletExtraArgs := Some ''--port=10251 --address=0.0.0.0'',
               labels := Some [(''role'', ''web''), (''zone'', ''b'')],
               taints := Some [(''gpu'', \<lparr>taint_value = ''true'', taint_effect = NoSchedule\<rparr>)]\<rparr>" "[]"]
        kubelet_extra_args_composition [of "noOptions\<lparr>labels := Some [(''role'', ''web'')]\<rparr>" "[]"]
        kubelet_extra_args_composition
          [of "noOptions\<lparr>kubeletExtraArgs := Some ''--port=10251 --address=0.0.0.0''\<rparr>" "[]"]
        kubelet_extra_args_composition [of noOptions "[]"]
  by (simp add: noOptions_def explicitTokens_def nodeLabelsToken_def registerWithTaintsToken_def SQ_def)

text \<open>C1 as stated fails: a tab is whitespace, and the code does not cut at it. The two
  arguments separated by a tab stay one token, which is passed unquoted.\<close>

theorem kubelet_whitespace_split_counterexample:
  "kubeletExtraArgsList (noOptions\<lparr>kubeletExtraArgs := Some (''--a=1'' @ [CHR 0x09] @ ''--b=2'')\<rparr>) \<noteq>
     splitOnWhitespace (''--a=1'' @ [CHR 0x09] @ ''--b=2'') @ nodeLabelsToken None @
     registerWithTaintsToken None \<and>
   bootstrapExtraArgsString (noOptions\<lparr>kubeletExtraArgs := Some (''--a=1'' @ [CHR 0x09] @ ''--b=2'')\<rparr>) =
     '' --kubelet-extra-args --a=1'' @ [CHR 0x09] @ ''--b=2'' \<and>
   kubeletFlag (splitOnWhitespace (''--a=1'' @ [CHR 0x09] @ ''--b=2'')) =
     '' --kubelet-extra-args '' @ SQ @ ''--a=1 --b=2'' @ SQ"
  by (simp add: noOptions_def kubeletExtraArgsList_def bootstrapExtraArgsString_def truthy_str_def
      splitOnWhitespace_def is_whitespace_def nodeLabelsToken_def registerWithTaintsToken_def)

subsection \<open>Subnet classifier\<close>

text \<open>The mask test of \<^verbatim>\<open>Netmask.contains\<close> against the three private blocks is a test
  of address ranges.\<close>

lemma and_not_mask_w: "(w :: 32 word) AND NOT (mask n) = push_bit n (drop_bit n w)"
  by (rule bit_eqI) (auto simp: bit_simps)

lemma unat_and_not_mask:
  fixes w :: "32 word"
  shows "unat (w AND NOT (mask n)) = (unat w div 2 ^ n) * 2 ^ n"
proof -
  have lt: "unat w < 2 ^ 32"
    using unsigned_less [of w] by simp
  have "unat (push_bit n (drop_bit n w)) = take_bit 32 (push_bit n (drop_bit n (unat w)))"
    using lt by (simp add: unsigned_push_bit_eq unsigned_drop_bit_eq take_bit_nat_eq_self)
  also have "\<dots> = push_bit n (drop_bit n (unat w))"
  proof -
    have "push_bit n (drop_bit n (unat w)) \<le> unat w"
      by (simp add: push_bit_eq_mult drop_bit_eq_div)
    then show ?thesis
      using lt by (simp add: take_bit_nat_eq_self_iff)
  qed
  finally show ?thesis
    by (simp add: and_not_mask_w push_bit_eq_mult drop_bit_eq_div)
qed

lemma maskA: "(0xFF000000 :: 32 word) = NOT (mask 24)"
  by (simp add: mask_eq_exp_minus_1)

lemma maskB: "(0xFFF00000 :: 32 word) = NOT (mask 20)"
  by (simp add: mask_eq_exp_minus_1)

lemma maskC: "(0xFFFF0000 :: 32 word) = NOT (mask 16)"
  by (simp add: mask_eq_exp_minus_1)

lemma rangeA:
  "(ip :: 32 word) AND 0xFF000000 = 0x0A000000 \<longleftrightarrow> 0x0A000000 \<le> ip \<and> ip \<le> 0x0AFFFFFF"
proof -
  have "ip AND 0xFF000000 = 0x0A000000 \<longleftrightarrow>
        unat (ip AND NOT (mask 24)) = unat (0x0A000000 :: 32 word)"
    unfolding maskA by (simp only: word_unat_eq_iff)
  also have "\<dots> \<longleftrightarrow> (unat ip div 2 ^ 24) * 2 ^ 24 = (167772160 :: nat)"
    by (simp only: unat_and_not_mask) simp
  also have "\<dots> \<longleftrightarrow> 167772160 \<le> unat ip \<and> unat ip \<le> 184549375"
    by simp arith
  also have "\<dots> \<longleftrightarrow> 0x0A000000 \<le> ip \<and> ip \<le> 0x0AFFFFFF"
    by (simp add: word_le_nat_alt)
  finally show ?thesis .
qed

lemma rangeB:
  "(ip :: 32 word) AND 0xFFF00000 = 0xAC100000 \<longleftrightarrow> 0xAC100000 \<le> ip \<and> ip \<le> 0xAC1FFFFF"
proof -
  have "ip AND 0xFFF00000 = 0xAC100000 \<longleftrightarrow>
        unat (ip AND NOT (mask 20)) = unat (0xAC100000 :: 32 word)"
    unfolding maskB by (simp only: word_unat_eq_iff)
  also have "\<dots> \<longleftrightarrow> (unat ip div 2 ^ 20) * 2 ^ 20 = (2886729728 :: nat)"
    by (simp only: unat_and_not_mask) simp
  also have "\<dots> \<longleftrightarrow> 2886729728 \<le> unat ip \<and> unat ip \<le> 2887778303"
    by simp arith
  also have "\<dots> \<longleftrightarrow> 0xAC100000 \<le> ip \<and> ip \<le> 0xAC1FFFFF"
    by (simp add: word_le_nat_alt)
  finally show ?thesis .
qed

lemma rangeC:
  "(ip :: 32 word) AND 0xFFFF0000 = 0xC0A80000 \<longleftrightarrow> 0xC0A80000 \<le> ip \<and> ip \<le> 0xC0A8FFFF"
proof -
  have "ip AND 0xFFFF0000 = 0xC0A80000 \<longleftrightarrow>
        unat (ip AND NOT (mask 16)) = unat (0xC0A80000 :: 32 word)"
    unfolding maskC by (simp only: word_unat_eq_iff)
  also have "\<dots> \<longleftrightarrow> (unat ip div 2 ^ 16) * 2 ^ 16 = (3232235520 :: nat)"
    by (simp only: unat_and_not_mask) simp
  also have "\<dots> \<longleftrightarrow> 3232235520 \<le> unat ip \<and> unat ip \<le> 3232301055"
    by simp arith
  also have "\<dots> \<longleftrightarrow> 0xC0A80000 \<le> ip \<and> ip \<le> 0xC0A8FFFF"
    by (simp add: word_le_nat_alt)
  finally show ?thesis .
qed

lemma contains_ip_privateA:
  "contains_ip privateA ip \<longleftrightarrow> 0x0A000000 \<le> ip \<and> ip \<le> 0x0AFFFFFF"
  using rangeA [of ip]
  by (simp add: contains_ip_def maskLong_def netLong_def privateA_def maskA [symmetric])

lemma contains_ip_privateB:
  "contains_ip privateB ip \<longleftrightarrow> 0xAC100000 \<le> ip \<and> ip \<le> 0xAC1FFFFF"
  using rangeB [of ip]
  by (simp add: contains_ip_def maskLong_def netLong_def privateB_def maskB [symmetric])

lemma contains_ip_privateC:
  "contains_ip privateC ip \<longleftrightarrow> 0xC0A80000 \<le> ip \<and> ip \<le> 0xC0A8FFFF"
  using rangeC [of ip]
  by (simp add: contains_ip_def maskLong_def netLong_def privateC_def maskC [symmetric])

lemma contains_private_ranges:
  "(contains privateA blk \<or> contains privateB blk \<or> contains privateC blk) = insidePrivateRange blk"
  by (simp add: insidePrivateRange_def contains_def
      contains_ip_privateA contains_ip_privateB contains_ip_privateC)

lemma Netmask_private_blocks:
  "Netmask ''10.0.0.0/8'' = Inr privateA"
  "Netmask ''172.16.0.0/12'' = Inr privateB"
  "Netmask ''192.168.0.0/16'' = Inr privateC"
  by code_simp+

lemma isPrivateCIDRBlock_ranges:
  "isPrivateCIDRBlock s =
     (case Netmask s of Inl e \<Rightarrow> Inl e | Inr blk \<Rightarrow> Inr (insidePrivateRange blk))"
  by (simp add: isPrivateCIDRBlock_def contains_private_ranges split: sum.splits)

text \<open>\<^verbatim>\<open>getRouteTableAsync\<close> finds the effective route table of section 4.2.\<close>

lemma getRouteTableAsync_effective: "getRouteTableAsync a s = effectiveRouteTable a s"
  by (auto simp: getRouteTableAsync_def effectiveRouteTable_def mainRouteTable_def
      split: sum.splits list.splits)

text \<open>When the destination of every gateway route is a block, the loop over the routes is the
  closed test; when moreover every gateway route that is not to an internet gateway has a
  private destination, it is the test of the specification.\<close>

lemma hasInternetGatewayRoute_closed:
  assumes "\<forall>r \<in> set routes. gatewayId r \<noteq> [] \<longrightarrow> \<not> isl (Netmask (cidrBlock r))"
  shows "hasInternetGatewayRoute routes = Inr (hasGatewayRouteOutsidePrivate routes)"
  using assms
proof (induction routes)
  case Nil
  then show ?case by (simp add: hasGatewayRouteOutsidePrivate_def)
next
  case (Cons r routes)
  then have ih: "hasInternetGatewayRoute routes = Inr (hasGatewayRouteOutsidePrivate routes)"
    by simp
  show ?case
  proof (cases "gatewayId r = []")
    case True
    then show ?thesis
      using ih by (simp add: hasGatewayRouteOutsidePrivate_def)
  next
    case False
    with Cons.prems obtain blk where blk: "Netmask (cidrBlock r) = Inr blk"
      by (cases "Netmask (cidrBlock r)") auto
    show ?thesis
      using False ih blk
      by (simp add: hasGatewayRouteOutsidePrivate_def isPrivateCIDRBlock_ranges
          destinationInsidePrivateRange_def)
  qed
qed

lemma internet_gateway_id_nonempty: "isInternetGatewayId g \<Longrightarrow> g \<noteq> []"
  by (auto simp: isInternetGatewayId_def)

lemma hasGatewayRoute_internet:
  assumes "\<forall>r \<in> set routes. gatewayId r \<noteq> [] \<longrightarrow>
             isInternetGatewayId (gatewayId r) \<or> destinationInsidePrivateRange (cidrBlock r)"
  shows "hasGatewayRouteOutsidePrivate routes = hasInternetGatewayRouteOutsidePrivate routes"
  using assms internet_gateway_id_nonempty
  by (induction routes)
    (auto simp: hasGatewayRouteOutsidePrivate_def hasInternetGatewayRouteOutsidePrivate_def)

lemma classify_subnets_filter:
  assumes "\<forall>s \<in> set ids. \<exists>routes. effectiveRouteTable a s = Inr routes \<and>
             (\<forall>r \<in> set routes. gatewayId r \<noteq> [] \<longrightarrow>
                \<not> isl (Netmask (cidrBlock r)) \<and>
                (isInternetGatewayId (gatewayId r) \<or> destinationInsidePrivateRange (cidrBlock r)))"
  shows "classify_subnets a ids pub priv =
         Inr (pub @ filter (isPublicSubnet a) ids, priv @ filter (\<lambda>s. \<not> isPublicSubnet a s) ids)"
  using assms
proof (induction ids arbitrary: pub priv)
  case Nil
  then show ?case by simp
next
  case (Cons s ids)
  from Cons.prems obtain routes where r: "effectiveRouteTable a s = Inr routes"
    and wf: "\<forall>r \<in> set routes. gatewayId r \<noteq> [] \<longrightarrow>
                \<not> isl (Netmask (cidrBlock r)) \<and>
                (isInternetGatewayId (gatewayId r) \<or> destinationInsidePrivateRange (cidrBlock r))"
    by auto
  have test: "hasInternetGatewayRoute routes = Inr (hasInternetGatewayRouteOutsidePrivate routes)"
    using hasInternetGatewayRoute_closed [of routes] hasGatewayRoute_internet [of routes] wf
    by simp
  from Cons.prems have rest: "\<forall>s \<in> set ids. \<exists>routes. effectiveRouteTable a s = Inr routes \<and>
             (\<forall>r \<in> set routes. gatewayId r \<noteq> [] \<longrightarrow>
                \<not> isl (Netmask (cidrBlock r)) \<and>
                (isInternetGatewayId (gatewayId r) \<or> destinationInsidePrivateRange (cidrBlock r)))"
    by simp
  show ?case
    by (simp add: getRouteTableAsync_effective r test Cons.IH [OF rest] isPublicSubnet_def)
qed

lemma classify_subnets_error:
  assumes "s \<in> set ids" and "effectiveRouteTable a s = Inl e"
  shows "\<exists>e'. classify_subnets a ids pub priv = Inl e'"
  using assms
  by (induction ids arbitrary: pub priv) (auto simp: getRouteTableAsync_effective split: sum.splits)

text \<open>A failed lookup of a route table is propagated.\<close>

lemma computeWorkerSubnets_lookup_failure:
  assumes "s \<in> set ids" and "effectiveRouteTable a s = Inl e"
  shows "isl (computeWorkerSubnets a ids)"
  using classify_subnets_error [OF assms, of "[]" "[]"]
  by (auto simp: computeWorkerSubnets_def)

text \<open>Where every gateway route of the candidates either goes to an internet gateway or has
  a private destination (as the local route of a VPC in a private range has), and has a
  destination that is a block, \<^verbatim>\<open>computeWorkerSubnets\<close> is the classifier of the
  specification.\<close>

lemma computeWorkerSubnets_internet_gateways:
  assumes "\<forall>s \<in> set ids. \<exists>routes. effectiveRouteTable a s = Inr routes \<and>
             (\<forall>r \<in> set routes. gatewayId r \<noteq> [] \<longrightarrow>
                \<not> isl (Netmask (cidrBlock r)) \<and>
                (isInternetGatewayId (gatewayId r) \<or> destinationInsidePrivateRange (cidrBlock r)))"
  shows "computeWorkerSubnets a ids = Inr (classify a ids)"
proof -
  have all_public: "filter (isPublicSubnet a) ids = ids"
    if "\<not> list_ex (\<lambda>s. \<not> isPublicSubnet a s) ids"
    using that by (induction ids) auto
  have "filter (\<lambda>s. \<not> isPublicSubnet a s) ids = [] \<longleftrightarrow> \<not> list_ex (\<lambda>s. \<not> isPublicSubnet a s) ids"
    by (induction ids) auto
  then show ?thesis
    using all_public
    by (simp add: computeWorkerSubnets_def classify_def classify_subnets_filter [OF assms])
qed

lemma computeWorkerSubnets_sample:
  "computeWorkerSubnets sampleAws [''subnet-a'', ''subnet-b''] = Inr [''subnet-b''] \<and>
   classify sampleAws [''subnet-a'', ''subnet-b''] = [''subnet-b'']"
  by code_simp

text \<open>A gateway route whose \<^verbatim>\<open>cidrBlock\<close> is empty makes the call fail, although every
  lookup succeeds.\<close>

lemma computeWorkerSubnets_empty_destination:
  "computeWorkerSubnets ipv6Aws [''subnet-v6''] = Inl (InvalidNetAddress []) \<and>
   classify ipv6Aws [''subnet-v6''] = [''subnet-v6'']"
  by code_simp

text \<open>C2: a subnet whose default route goes to a virtual private gateway has no route to an
  internet gateway and is private in the words of the claim, so that the classifier of the
  specification returns it alone; the code tests only that the route has a gateway id, takes
  the subnet for public, and returns both candidates.\<close>

theorem virtual_private_gateway_route_counts_as_public:
  "computeWorkerSubnets vpnAws [''subnet-vpn'', ''subnet-igw''] =
     Inr [''subnet-vpn'', ''subnet-igw''] \<and>
   classify vpnAws [''subnet-vpn'', ''subnet-igw''] = [''subnet-vpn'']"
  by code_simp

subsection \<open>Root volume\<close>













subsection \<open>AMI\<close>

lemma selectedAmiType_explicit:
  "amiType args = Some t \<Longrightarrow> t \<noteq> [] \<Longrightarrow> selectedAmiType args = ''amazon-linux-2-gpu''"
  by (simp add: selectedAmiType_def amiType_or_gpu_def)

lemma selectedAmiType_default:
  "amiType args = None \<Longrightarrow>
   selectedAmiType args = (if truthy_bool (gpu args) then ''amazon-linux-2-gpu'' else ''amazon-linux-2'')"
  by (simp add: selectedAmiType_def amiType_or_gpu_def truthy_bool_def split: option.splits)

lemma resolveAmiId_explicit:
  "amiId args = Some i \<Longrightarrow> i \<noteq> [] \<Longrightarrow> resolveAmiId args c = ImageId i"
  by (simp add: resolveAmiId_def truthy_str_def)

text \<open>C4: with the explicit type \<^verbatim>\<open>amazon-linux-2-arm64\<close>, no \<^verbatim>\<open>gpu\<close> flag and no
  \<^verbatim>\<open>amiId\<close>, the code looks up the image of the GPU family, where the claim has the
  given family.\<close>

theorem explicit_amiType_looks_up_gpu_image:
  "resolveAmiId (noOptions\<lparr>amiType := Some ''amazon-linux-2-arm64''\<rparr>) sampleCore =
     SsmParameterValue ''/aws/service/eks/optimized-ami/1.21/amazon-linux-2-gpu/recommended/image_id''"
  by (simp add: resolveAmiId_def parameterName_def resolvedVersion_def selectedAmiType_def
      amiType_or_gpu_def truthy_str_def noOptions_def sampleCore_def)

subsection \<open>User data override\<close>

lemma exclusionChecks_fails_V1:
  "exclusionChecks args = Inl e \<Longrightarrow> createNodeGroupInternal a st args c = ([], Inl e)"
  by (simp add: createNodeGroupInternal_def)

lemma exclusionChecks_fails_V2:
  "exclusionChecks args = Inl e \<Longrightarrow> createNodeGroupV2Internal a nm args c = ([], Inl e)"
  by (simp add: createNodeGroupV2Internal_def)

text \<open>C5: when the user data override is set (a non-empty string) together with custom user
  data, labels, taints, extra kubelet arguments or extra bootstrap arguments, both
  provisioners throw one of the three mutual-exclusion errors, the one of the override unless
  an earlier exclusion fails first, and no resource has been created.\<close>

theorem user_data_override_conflict_rejected:
  assumes "truthy_str (nodeUserDataOverride args)"
    and "truthy_str (nodeUserData args) \<or> labels args \<noteq> None \<or> taints args \<noteq> None \<or>
         truthy_str (kubeletExtraArgs args) \<or> truthy_str (bootstrapExtraArgs args)"
  shows "createNodeGroupInternal a st args c =
           ([], Inl (if truthy_str (nodePublicKey args) \<and> truthy_str (keyName args)
                     then PublicKeyAndKeyNameExclusive
                     else if truthy_str (amiId args) \<and> truthy_bool (gpu args)
                     then AmiIdAndGpuExclusive
                     else UserDataOverrideExclusive)) \<and>
         createNodeGroupV2Internal a nm args c =
           ([], Inl (if truthy_str (nodePublicKey args) \<and> truthy_str (keyName args)
                     then PublicKeyAndKeyNameExclusive
                     else if truthy_str (amiId args) \<and> truthy_bool (gpu args)
                     then AmiIdAndGpuExclusive
                     else UserDataOverrideExclusive))"
proof -
  have conflict: "userDataOverrideConflict args"
    using assms by (auto simp: userDataOverrideConflict_def truthy_obj_def split: option.splits)
  have "exclusionChecks args =
          Inl (if truthy_str (nodePublicKey args) \<and> truthy_str (keyName args)
               then PublicKeyAndKeyNameExclusive
               else if truthy_str (amiId args) \<and> truthy_bool (gpu args)
               then AmiIdAndGpuExclusive
               else UserDataOverrideExclusive)"
    using conflict by (simp add: exclusionChecks_def)
  then show ?thesis
    using exclusionChecks_fails_V1 exclusionChecks_fails_V2 by metis
qed

theorem user_data_override_conflict_rejected_witness:
  "createNodeGroupInternal sampleAws ''stk''
     (noOptions\<lparr>nodeUserDataOverride := Some ''#!/bin/bash'', labels := Some [(''role'', ''web'')]\<rparr>)
     sampleCore = ([], Inl UserDataOverrideExclusive) \<and>
   createNodeGroupV2Internal sampleAws ''ng''
     (noOptions\<lparr>nodeUserDataOverride := Some ''#!/bin/bash'', labels := Some [(''role'', ''web'')]\<rparr>)
     sampleCore = ([], Inl UserDataOverrideExclusive)"
proof -
  let ?args = "noOptions\<lparr>nodeUserDataOverride := Some ''#!/bin/bash'', labels := Some [(''role'', ''web'')]\<rparr>"
  have h1: "truthy_str (nodeUserDataOverride ?args)"
    by (simp add: truthy_str_def)
  have h2: "truthy_str (nodeUserData ?args) \<or> labels ?args \<noteq> None \<or> taints ?args \<noteq> None \<or>
         truthy_str (kubeletExtraArgs ?args) \<or> truthy_str (bootstrapExtraArgs ?args)"
    by simp
  show ?thesis
    using user_data_override_conflict_rejected [OF h1 h2, of sampleAws "''stk''" sampleCore "''ng''"]
    by (simp add: noOptions_def truthy_str_def)
qed

subsection \<open>Capacity\<close>

lemma V1_cases:
  "createNodeGroupInternal a st args c = (rs, Inl e) \<Longrightarrow>
   exclusionChecks args = Inl e \<or> snd (resolveSecurityGroup args) = Inl e \<or> rootVolumeChecks args = Inl e"
  by (auto simp: createNodeGroupInternal_def Let_def split: sum.splits prod.splits)

lemma V2_cases:
  "createNodeGroupV2Internal a nm args c = (rs, Inl e) \<Longrightarrow>
   exclusionChecks args = Inl e \<or> snd (resolveSecurityGroup args) = Inl e \<or> rootVolumeChecks args = Inl e"
  by (auto simp: createNodeGroupV2Internal_def Let_def split: sum.splits prod.splits)

text \<open>C6: with \<^verbatim>\<open>desiredCapacity\<close>, \<^verbatim>\<open>minSize\<close> and \<^verbatim>\<open>maxSize\<close> unset, a call that
  passes validation gives the stack the capacity 2, 1, 2 and the minimum in service 0 when a
  spot price is set and 1 otherwise; the launch-template provisioner gives the autoscaling
  group the same capacity.\<close>

theorem capacity_defaults:
  assumes "desiredCapacity args = None" and "minSize args = None" and "maxSize args = None"
  shows "(case snd (createNodeGroupInternal a st args c) of
            Inl e \<Rightarrow> exclusionChecks args = Inl e \<or> snd (resolveSecurityGroup args) = Inl e \<or>
                     rootVolumeChecks args = Inl e
          | Inr d \<Rightarrow> cfn_desiredCapacity d = 2 \<and> cfn_minSize d = 1 \<and> cfn_maxSize d = 2 \<and>
                     cfn_minInstancesInService d = (if truthy_str (spotPrice args) then 0 else 1)) \<and>
         (case snd (createNodeGroupV2Internal a nm args c) of
            Inl e \<Rightarrow> exclusionChecks args = Inl e \<or> snd (resolveSecurityGroup args) = Inl e \<or>
                     rootVolumeChecks args = Inl e
          | Inr d \<Rightarrow> asg_desiredCapacity d = 2 \<and> asg_minSize d = 1 \<and> asg_maxSize d = 2)"
proof -
  have v1: "cfn_desiredCapacity d = 2 \<and> cfn_minSize d = 1 \<and> cfn_maxSize d = 2 \<and>
            cfn_minInstancesInService d = (if truthy_str (spotPrice args) then 0 else 1)"
    if "createNodeGroupInternal a st args c = (rs, Inr d)" for rs d
    using that assms
    by (auto simp: createNodeGroupInternal_def defaultCapacity_def minInstancesInService_def Let_def
        split: sum.splits prod.splits)
  have v2: "asg_desiredCapacity d = 2 \<and> asg_minSize d = 1 \<and> asg_maxSize d = 2"
    if "createNodeGroupV2Internal a nm args c = (rs, Inr d)" for rs d
    using that assms
    by (auto simp: createNodeGroupV2Internal_def split: sum.splits prod.splits)
  show ?thesis
  proof (intro conjI)
    show "case snd (createNodeGroupInternal a st args c) of
            Inl e \<Rightarrow> exclusionChecks args = Inl e \<or> snd (resolveSecurityGroup args) = Inl e \<or>
                     rootVolumeChecks args = Inl e
          | Inr d \<Rightarrow> cfn_desiredCapacity d = 2 \<and> cfn_minSize d = 1 \<and> cfn_maxSize d = 2 \<and>
                     cfn_minInstancesInService d = (if truthy_str (spotPrice args) then 0 else 1)"
      using v1 V1_cases [of a st args c]
      by (cases "createNodeGroupInternal a st args c") (auto split: sum.splits)
    show "case snd (createNodeGroupV2Internal a nm args c) of
            Inl e \<Rightarrow> exclusionChecks args = Inl e \<or> snd (resolveSecurityGroup args) = Inl e \<or>
                     rootVolumeChecks args = Inl e
          | Inr d \<Rightarrow> asg_desiredCapacity d = 2 \<and> asg_minSize d = 1 \<and> asg_maxSize d = 2"
      using v2 V2_cases [of a nm args c]
      by (cases "createNodeGroupV2Internal a nm args c") (auto split: sum.splits)
  qed
qed

theorem capacity_defaults_witness:
  "map_sum id (\<lambda>d. (cfn_desiredCapacity d, cfn_minSize d, cfn_maxSize d, cfn_minInstancesInService d))
     (snd (createNodeGroupInternal sampleAws ''stk'' (noOptions\<lparr>spotPrice := Some ''0.05''\<rparr>) sampleCore)) =
     Inr (2, 1, 2, 0) \<and>
   map_sum id (\<lambda>d. (cfn_desiredCapacity d, cfn_minSize d, cfn_maxSize d, cfn_minInstancesInService d))
     (snd (createNodeGroupInternal sampleAws ''stk'' noOptions sampleCore)) =
     Inr (2, 1, 2, 1) \<and>
   map_sum id (\<lambda>d. (asg_desiredCapacity d, asg_minSize d, asg_maxSize d))
     (snd (createNodeGroupV2Internal sampleAws ''ng'' (noOptions\<lparr>spotPrice := Some ''0.05''\<rparr>) sampleCore)) =
     Inr (2, 1, 2)"
proof -
  have ok1: "\<not> isl (snd (createNodeGroupInternal sampleAws ''stk'' (noOptions\<lparr>spotPrice := Some ''0.05''\<rparr>) sampleCore))"
    by code_simp
  have ok2: "\<not> isl (snd (createNodeGroupInternal sampleAws ''stk'' noOptions sampleCore))"
    by code_simp
  have ok3: "\<not> isl (snd (createNodeGroupV2Internal sampleAws ''ng'' (noOptions\<lparr>spotPrice := Some ''0.05''\<rparr>) sampleCore))"
    by code_simp
  have n: "desiredCapacity noOptions = None" "minSize noOptions = None" "maxSize noOptions = None"
    by (simp_all add: noOptions_def)
  have s: "desiredCapacity (noOptions\<lparr>spotPrice := Some ''0.05''\<rparr>) = None"
    "minSize (noOptions\<lparr>spotPrice := Some ''0.05''\<rparr>) = None"
    "maxSize (noOptions\<lparr>spotPrice := Some ''0.05''\<rparr>) = None"
    by (simp_all add: noOptions_def)
  show ?thesis
    using capacity_defaults [OF s, of sampleAws "''stk''" sampleCore "''ng''"]
      capacity_defaults [OF n, of sampleAws "''stk''" sampleCore "''ng''"] ok1 ok2 ok3
    by (auto simp: truthy_str_def noOptions_def split: sum.splits)
qed

subsection \<open>Managed node group\<close>

lemma find_not_member: "x \<notin> set xs \<Longrightarrow> find (\<lambda>r. r = x) xs = None"
  by (induction xs) auto

text \<open>C7: the managed provisioner throws when neither a role nor a role ARN is given, throws
  another error when both are given, and with exactly one of them, when the ARN is not among
  those of the instance roles of the cluster, the check of the role is rejected with a third
  error.\<close>

theorem managed_role_checks:
  "(nodeRole args = None \<and> \<not> truthy_str (nodeRoleArn args) \<longrightarrow>
      createManagedNodeGroupInternal args c = ([], Inl RoleRequired)) \<and>
   (nodeRole args \<noteq> None \<and> truthy_str (nodeRoleArn args) \<longrightarrow>
      createManagedNodeGroupInternal args c = ([], Inl RoleAndRoleArnExclusive)) \<and>
   (nodeRole args = None \<and> nodeRoleArn args = Some arn \<and> arn \<noteq> [] \<and> arn \<notin> set (instanceRoles c) \<longrightarrow>
      createManagedNodeGroupInternal args c =
        ([EksNodeGroup], Inr \<lparr>mng_nodeRoleArn = arn, nodegroupRoleChecked = Inl RoleNotInInstanceRoles\<rparr>) \<and>
      managedNodeGroupFailed (createManagedNodeGroupInternal args c)) \<and>
   (nodeRole args = Some arn \<and> \<not> truthy_str (nodeRoleArn args) \<and> arn \<notin> set (instanceRoles c) \<longrightarrow>
      createManagedNodeGroupInternal args c =
        ([EksNodeGroup], Inr \<lparr>mng_nodeRoleArn = arn, nodegroupRoleChecked = Inl RoleNotInInstanceRoles\<rparr>) \<and>
      managedNodeGroupFailed (createManagedNodeGroupInternal args c))"
  by (auto simp: createManagedNodeGroupInternal_def truthy_obj_def truthy_str_def
      nodegroupRoleCheck_def find_not_member managedNodeGroupFailed_def split: option.splits)

theorem managed_role_checks_witness:
  "createManagedNodeGroupInternal \<lparr>nodeRoleArn = None, nodeRole = None\<rparr> sampleCore =
     ([], Inl RoleRequired) \<and>
   createManagedNodeGroupInternal
     \<lparr>nodeRoleArn = Some ''arn:aws:iam::1:role/r1'', nodeRole = Some ''arn:aws:iam::1:role/r1''\<rparr>
     sampleCore = ([], Inl RoleAndRoleArnExclusive) \<and>
   createManagedNodeGroupInternal \<lparr>nodeRoleArn = Some ''arn:aws:iam::1:role/r2'', nodeRole = None\<rparr>
     sampleCore =
     ([EksNodeGroup],
      Inr \<lparr>mng_nodeRoleArn = ''arn:aws:iam::1:role/r2'',
           nodegroupRoleChecked = Inl RoleNotInInstanceRoles\<rparr>) \<and>
   createManagedNodeGroupInternal \<lparr>nodeRoleArn = None, nodeRole = Some ''arn:aws:iam::1:role/r2''\<rparr>
     sampleCore =
     ([EksNodeGroup],
      Inr \<lparr>mng_nodeRoleArn = ''arn:aws:iam::1:role/r2'',
           nodegroupRoleChecked = Inl RoleNotInInstanceRoles\<rparr>) \<and>
   createManagedNodeGroupInternal \<lparr>nodeRoleArn = Some ''arn:aws:iam::1:role/r1'', nodeRole = None\<rparr>
     sampleCore =
     ([EksNodeGroup],
      Inr \<lparr>mng_nodeRoleArn = ''arn:aws:iam::1:role/r1'', nodegroupRoleChecked = Inr ()\<rparr>)"
proof -
  have ok: "createManagedNodeGroupInternal \<lparr>nodeRoleArn = Some ''arn:aws:iam::1:role/r1'', nodeRole = None\<rparr>
     sampleCore =
     ([EksNodeGroup],
      Inr \<lparr>mng_nodeRoleArn = ''arn:aws:iam::1:role/r1'', nodegroupRoleChecked = Inr ()\<rparr>)"
    by (simp add: createManagedNodeGroupInternal_def truthy_obj_def truthy_str_def
        nodegroupRoleCheck_def sampleCore_def)
  show ?thesis
    using managed_role_checks [of "\<lparr>nodeRoleArn = None, nodeRole = None\<rparr>" sampleCore "[]"]
      managed_role_checks
        [of "\<lparr>nodeRoleArn = Some ''arn:aws:iam::1:role/r1'', nodeRole = Some ''arn:aws:iam::1:role/r1''\<rparr>"
            sampleCore "[]"]
      managed_role_checks
        [of "\<lparr>nodeRoleArn = Some ''arn:aws:iam::1:role/r2'', nodeRole = None\<rparr>" sampleCore
            "''arn:aws:iam::1:role/r2''"]
      managed_role_checks
        [of "\<lparr>nodeRoleArn = None, nodeRole = Some ''arn:aws:iam::1:role/r2''\<rparr>" sampleCore
            "''arn:aws:iam::1:role/r2''"]
      ok
    by (simp add: truthy_str_def sampleCore_def)
qed

subsection \<open>Worker subnets\<close>

lemma V1_subnets:
  "createNodeGroupInternal a st args c = (rs, Inr d) \<Longrightarrow> cfn_vpcZoneIdentifier d = workerSubnetIds a args c"
  by (auto simp: createNodeGroupInternal_def Let_def split: sum.splits prod.splits)

lemma V2_subnets:
  "createNodeGroupV2Internal a nm args c = (rs, Inr d) \<Longrightarrow>
   asg_vpcZoneIdentifiers d = workerSubnetIds a args c"
  by (auto simp: createNodeGroupV2Internal_def split: sum.splits prod.splits)

lemma workerSubnetIds_first:
  "workerSubnetIds a args c =
     (case firstDefined [nodeSubnetIds args, privateSubnetIds c, publicSubnetIds c] of
        Some ids \<Rightarrow> Inr ids
      | None \<Rightarrow> computeWorkerSubnets a (subnetIds c))"
  by (auto simp: workerSubnetIds_def firstDefined_def split: option.splits)

text \<open>C8: the subnets of the worker group are the first defined of the override of the node
  group, the private subnets of the cluster and its public subnets, and only when none is
  defined the classification of all the subnets of the cluster; both provisioners hand this
  value to the autoscaling group.\<close>

theorem worker_subnets_priority:
  "workerSubnetIds a args c =
     (case firstDefined [nodeSubnetIds args, privateSubnetIds c, publicSubnetIds c] of
        Some ids \<Rightarrow> Inr ids
      | None \<Rightarrow> computeWorkerSubnets a (subnetIds c)) \<and>
   (case snd (createNodeGroupInternal a st args c) of
      Inl e \<Rightarrow> exclusionChecks args = Inl e \<or> snd (resolveSecurityGroup args) = Inl e \<or>
               rootVolumeChecks args = Inl e
    | Inr d \<Rightarrow> cfn_vpcZoneIdentifier d = workerSubnetIds a args c) \<and>
   (case snd (createNodeGroupV2Internal a nm args c) of
      Inl e \<Rightarrow> exclusionChecks args = Inl e \<or> snd (resolveSecurityGroup args) = Inl e \<or>
               rootVolumeChecks args = Inl e
    | Inr d \<Rightarrow> asg_vpcZoneIdentifiers d = workerSubnetIds a args c)"
proof (intro conjI)
  show "workerSubnetIds a args c =
     (case firstDefined [nodeSubnetIds args, privateSubnetIds c, publicSubnetIds c] of
        Some ids \<Rightarrow> Inr ids
      | None \<Rightarrow> computeWorkerSubnets a (subnetIds c))"
    by (rule workerSubnetIds_first)
  show "case snd (createNodeGroupInternal a st args c) of
      Inl e \<Rightarrow> exclusionChecks args = Inl e \<or> snd (resolveSecurityGroup args) = Inl e \<or>
               rootVolumeChecks args = Inl e
    | Inr d \<Rightarrow> cfn_vpcZoneIdentifier d = workerSubnetIds a args c"
    using V1_subnets [of a st args c] V1_cases [of a st args c]
    by (cases "createNodeGroupInternal a st args c") (auto split: sum.splits)
  show "case snd (createNodeGroupV2Internal a nm args c) of
      Inl e \<Rightarrow> exclusionChecks args = Inl e \<or> snd (resolveSecurityGroup args) = Inl e \<or>
               rootVolumeChecks args = Inl e
    | Inr d \<Rightarrow> asg_vpcZoneIdentifiers d = workerSubnetIds a args c"
    using V2_subnets [of a nm args c] V2_cases [of a nm args c]
    by (cases "createNodeGroupV2Internal a nm args c") (auto split: sum.splits)
qed

theorem worker_subnets_priority_witness:
  "workerSubnetIds sampleAws (noOptions\<lparr>nodeSubnetIds := Some [''subnet-x'']\<rparr>)
     (sampleCore\<lparr>privateSubnetIds := Some [''subnet-p''], publicSubnetIds := Some [''subnet-q'']\<rparr>) =
     Inr [''subnet-x''] \<and>
   workerSubnetIds sampleAws noOptions
     (sampleCore\<lparr>privateSubnetIds := Some [''subnet-p''], publicSubnetIds := Some [''subnet-q'']\<rparr>) =
     Inr [''subnet-p''] \<and>
   workerSubnetIds sampleAws noOptions (sampleCore\<lparr>publicSubnetIds := Some [''subnet-q'']\<rparr>) =
     Inr [''subnet-q''] \<and>
   workerSubnetIds sampleAws noOptions sampleCore =
     computeWorkerSubnets sampleAws [''subnet-a'', ''subnet-b''] \<and>
   map_sum id cfn_vpcZoneIdentifier
     (snd (createNodeGroupInternal sampleAws ''stk'' noOptions
            (sampleCore\<lparr>publicSubnetIds := Some [''subnet-q'']\<rparr>))) = Inr (Inr [''subnet-q''])"
proof -
  have ok: "\<not> isl (snd (createNodeGroupInternal sampleAws ''stk'' noOptions
            (sampleCore\<lparr>publicSubnetIds := Some [''subnet-q'']\<rparr>)))"
    by code_simp
  show ?thesis
    using worker_subnets_priority
        [of sampleAws "noOptions\<lparr>nodeSubnetIds := Some [''subnet-x'']\<rparr>"
            "sampleCore\<lparr>privateSubnetIds := Some [''subnet-p''], publicSubnetIds := Some [''subnet-q'']\<rparr>"
            "''stk''" "''ng''"]
      worker_subnets_priority
        [of sampleAws noOptions
            "sampleCore\<lparr>privateSubnetIds := Some [''subnet-p''], publicSubnetIds := Some [''subnet-q'']\<rparr>"
            "''stk''" "''ng''"]
      worker_subnets_priority
        [of sampleAws noOptions "sampleCore\<lparr>publicSubnetIds := Some [''subnet-q'']\<rparr>" "''stk''" "''ng''"]
      worker_subnets_priority [of sampleAws noOptions sampleCore "''stk''" "''ng''"]
      ok
    by (auto simp: firstDefined_def noOptions_def sampleCore_def split: sum.splits)
qed

subsection \<open>Order of validation and resource creation\<close>

lemma resolveSecurityGroup_resources:
  "set (fst (resolveSecurityGroup args)) \<subseteq> {SecurityGroup, SecurityGroupRule}"
  by (auto simp: resolveSecurityGroup_def createNodeGroupSecurityGroup_def split: option.splits)

lemma keyResources_resources: "set (keyResources args) \<subseteq> {KeyPair}"
  by (auto simp: keyResources_def)

lemma synchronous_checks_pass_V1:
  assumes "exclusionChecks args = Inr ()" and "\<not> isl (snd (resolveSecurityGroup args))"
    and "rootVolumeChecks args = Inr ()"
  shows "fst (createNodeGroupInternal a st args c) =
           fst (resolveSecurityGroup args) @ keyResources args @
           [RandomSuffix, LaunchConfiguration, CloudFormationStack] \<and>
         map_sum id iamInstanceProfile (snd (createNodeGroupInternal a st args c)) =
           Inr (resolveInstanceProfile args c) \<and>
         map_sum id securityGroupTagsChecked (snd (createNodeGroupInternal a st args c)) =
           Inr (securityGroupTagsCheck args c)"
  using assms
  by (auto simp: createNodeGroupInternal_def Let_def split: sum.splits prod.splits)

lemma synchronous_checks_pass_V2:
  assumes "exclusionChecks args = Inr ()" and "\<not> isl (snd (resolveSecurityGroup args))"
    and "rootVolumeChecks args = Inr ()"
  shows "fst (createNodeGroupV2Internal a nm args c) =
           fst (resolveSecurityGroup args) @ keyResources args @ [LaunchTemplate, AutoScalingGroup] \<and>
         map_sum id v2_iamInstanceProfile (snd (createNodeGroupV2Internal a nm args c)) =
           Inr (resolveInstanceProfile args c) \<and>
         map_sum id v2_securityGroupTagsChecked (snd (createNodeGroupV2Internal a nm args c)) =
           Inr (securityGroupTagsCheck args c)"
  using assms
  by (auto simp: createNodeGroupV2Internal_def split: sum.splits prod.splits)

lemma instance_profile_missing:
  "instanceProfile args = None \<Longrightarrow> core_instanceProfile c = None \<Longrightarrow>
   resolveInstanceProfile args c = Inl InstanceProfileRequired"
  by (simp add: resolveInstanceProfile_def truthy_obj_def)

lemma security_group_tags_conflict:
  "core_nodeSecurityGroup c = Some g \<Longrightarrow> nodeSecurityGroup args = Some h \<Longrightarrow>
   nodeSecurityGroupTags c \<noteq> None \<Longrightarrow> sg_object g \<noteq> sg_object h \<Longrightarrow>
   securityGroupTagsCheck args c = Inl SecurityGroupAndTagsExclusive"
  by (auto simp: securityGroupTagsCheck_def truthy_obj_def)

text \<open>C9 (as amended): a call that fails one of the three mutual exclusions, or gives a
  security group without its ingress rule, throws before any resource is constructed. A call
  that fails a check of the root volume throws after the security group with its rule (when
  none is supplied), the key pair (when a public key is given) and, for the stack, the random
  suffix have been constructed, and before any launch configuration, launch template, stack
  or autoscaling group. The prerequisite of an instance profile and the exclusion of the
  security group and the security group tags are checked in deferred callbacks: a call that
  passes the other checks and fails one of these two constructs every resource of the fleet,
  and fails by the rejected deferred value.\<close>

theorem validation_before_resources:
  "((truthy_str (nodePublicKey args) \<and> truthy_str (keyName args)) \<or>
    (truthy_str (amiId args) \<and> truthy_bool (gpu args)) \<or>
    userDataOverrideConflict args \<or>
    (nodeSecurityGroup args \<noteq> None \<and> clusterIngressRule args = None) \<longrightarrow>
      fst (createNodeGroupInternal a st args c) = [] \<and>
      isl (snd (createNodeGroupInternal a st args c)) \<and>
      fst (createNodeGroupV2Internal a nm args c) = [] \<and>
      isl (snd (createNodeGroupV2Internal a nm args c))) \<and>
   (isl (rootVolumeChecks args) \<longrightarrow>
      isl (snd (createNodeGroupInternal a st args c)) \<and>
      isl (snd (createNodeGroupV2Internal a nm args c)) \<and>
      set (fst (createNodeGroupInternal a st args c)) \<subseteq>
        {SecurityGroup, SecurityGroupRule, KeyPair, RandomSuffix} \<and>
      set (fst (createNodeGroupV2Internal a nm args c)) \<subseteq> {SecurityGroup, SecurityGroupRule, KeyPair}) \<and>
   (exclusionChecks args = Inr () \<and> \<not> isl (snd (resolveSecurityGroup args)) \<and>
    isl (rootVolumeChecks args) \<longrightarrow>
      fst (createNodeGroupInternal a st args c) =
        fst (resolveSecurityGroup args) @ keyResources args @ [RandomSuffix] \<and>
      fst (createNodeGroupV2Internal a nm args c) = fst (resolveSecurityGroup args) @ keyResources args) \<and>
   (exclusionChecks args = Inr () \<and> \<not> isl (snd (resolveSecurityGroup args)) \<and>
    rootVolumeChecks args = Inr () \<and>
    ((instanceProfile args = None \<and> core_instanceProfile c = None) \<or>
     (nodeSecurityGroupTags c \<noteq> None \<and> core_nodeSecurityGroup c \<noteq> None \<and>
      nodeSecurityGroup args \<noteq> None \<and>
      map_option sg_object (core_nodeSecurityGroup c) \<noteq> map_option sg_object (nodeSecurityGroup args))) \<longrightarrow>
      fst (createNodeGroupInternal a st args c) =
        fst (resolveSecurityGroup args) @ keyResources args @
        [RandomSuffix, LaunchConfiguration, CloudFormationStack] \<and>
      \<not> isl (snd (createNodeGroupInternal a st args c)) \<and>
      nodeGroupFailed (createNodeGroupInternal a st args c) \<and>
      fst (createNodeGroupV2Internal a nm args c) =
        fst (resolveSecurityGroup args) @ keyResources args @ [LaunchTemplate, AutoScalingGroup] \<and>
      \<not> isl (snd (createNodeGroupV2Internal a nm args c)) \<and>
      nodeGroupV2Failed (createNodeGroupV2Internal a nm args c))"
proof (intro conjI impI)
  assume h: "(truthy_str (nodePublicKey args) \<and> truthy_str (keyName args)) \<or>
    (truthy_str (amiId args) \<and> truthy_bool (gpu args)) \<or>
    userDataOverrideConflict args \<or>
    (nodeSecurityGroup args \<noteq> None \<and> clusterIngressRule args = None)"
  then have "isl (exclusionChecks args) \<or> resolveSecurityGroup args = ([], Inl ClusterIngressRuleRequired)"
    by (auto simp: exclusionChecks_def resolveSecurityGroup_def split: option.splits)
  then have "createNodeGroupInternal a st args c \<in> {([], Inl e) | e. True} \<and>
             createNodeGroupV2Internal a nm args c \<in> {([], Inl e) | e. True}"
    by (auto simp: createNodeGroupInternal_def createNodeGroupV2Internal_def split: sum.splits)
  then show "fst (createNodeGroupInternal a st args c) = []"
    "isl (snd (createNodeGroupInternal a st args c))"
    "fst (createNodeGroupV2Internal a nm args c) = []"
    "isl (snd (createNodeGroupV2Internal a nm args c))"
    by auto
next
  assume h: "isl (rootVolumeChecks args)"
  then obtain e where e: "rootVolumeChecks args = Inl e"
    by (cases "rootVolumeChecks args") auto
  show "isl (snd (createNodeGroupInternal a st args c))"
    using e by (simp add: createNodeGroupInternal_def split: sum.splits prod.splits)
  show "isl (snd (createNodeGroupV2Internal a nm args c))"
    using e by (simp add: createNodeGroupV2Internal_def split: sum.splits prod.splits)
  show "set (fst (createNodeGroupInternal a st args c)) \<subseteq>
        {SecurityGroup, SecurityGroupRule, KeyPair, RandomSuffix}"
    using e resolveSecurityGroup_resources [of args] keyResources_resources [of args]
    by (auto simp: createNodeGroupInternal_def split: sum.splits prod.splits)
  show "set (fst (createNodeGroupV2Internal a nm args c)) \<subseteq> {SecurityGroup, SecurityGroupRule, KeyPair}"
    using e resolveSecurityGroup_resources [of args] keyResources_resources [of args]
    by (auto simp: createNodeGroupV2Internal_def split: sum.splits prod.splits)
next
  assume h: "exclusionChecks args = Inr () \<and> \<not> isl (snd (resolveSecurityGroup args)) \<and>
    isl (rootVolumeChecks args)"
  then obtain e where e: "rootVolumeChecks args = Inl e"
    by (cases "rootVolumeChecks args") auto
  show "fst (createNodeGroupInternal a st args c) =
        fst (resolveSecurityGroup args) @ keyResources args @ [RandomSuffix]"
    using h e by (auto simp: createNodeGroupInternal_def split: sum.splits prod.splits)
  show "fst (createNodeGroupV2Internal a nm args c) = fst (resolveSecurityGroup args) @ keyResources args"
    using h e by (auto simp: createNodeGroupV2Internal_def split: sum.splits prod.splits)
next
  assume h: "exclusionChecks args = Inr () \<and> \<not> isl (snd (resolveSecurityGroup args)) \<and>
    rootVolumeChecks args = Inr () \<and>
    ((instanceProfile args = None \<and> core_instanceProfile c = None) \<or>
     (nodeSecurityGroupTags c \<noteq> None \<and> core_nodeSecurityGroup c \<noteq> None \<and>
      nodeSecurityGroup args \<noteq> None \<and>
      map_option sg_object (core_nodeSecurityGroup c) \<noteq> map_option sg_object (nodeSecurityGroup args)))"
  then have deferred: "isl (resolveInstanceProfile args c) \<or> isl (securityGroupTagsCheck args c)"
    using instance_profile_missing [of args c] security_group_tags_conflict [of c _ args]
    by auto
  from h have v1: "fst (createNodeGroupInternal a st args c) =
           fst (resolveSecurityGroup args) @ keyResources args @
           [RandomSuffix, LaunchConfiguration, CloudFormationStack] \<and>
         map_sum id iamInstanceProfile (snd (createNodeGroupInternal a st args c)) =
           Inr (resolveInstanceProfile args c) \<and>
         map_sum id securityGroupTagsChecked (snd (createNodeGroupInternal a st args c)) =
           Inr (securityGroupTagsCheck args c)"
    using synchronous_checks_pass_V1 by blast
  from h have v2: "fst (createNodeGroupV2Internal a nm args c) =
           fst (resolveSecurityGroup args) @ keyResources args @ [LaunchTemplate, AutoScalingGroup] \<and>
         map_sum id v2_iamInstanceProfile (snd (createNodeGroupV2Internal a nm args c)) =
           Inr (resolveInstanceProfile args c) \<and>
         map_sum id v2_securityGroupTagsChecked (snd (createNodeGroupV2Internal a nm args c)) =
           Inr (securityGroupTagsCheck args c)"
    using synchronous_checks_pass_V2 by blast
  show "fst (createNodeGroupInternal a st args c) =
        fst (resolveSecurityGroup args) @ keyResources args @
        [RandomSuffix, LaunchConfiguration, CloudFormationStack]"
    using v1 by simp
  show "\<not> isl (snd (createNodeGroupInternal a st args c))"
    using v1 by (cases "snd (createNodeGroupInternal a st args c)") auto
  show "nodeGroupFailed (createNodeGroupInternal a st args c)"
    using v1 deferred
    by (cases "snd (createNodeGroupInternal a st args c)") (auto simp: nodeGroupFailed_def)
  show "fst (createNodeGroupV2Internal a nm args c) =
        fst (resolveSecurityGroup args) @ keyResources args @ [LaunchTemplate, AutoScalingGroup]"
    using v2 by simp
  show "\<not> isl (snd (createNodeGroupV2Internal a nm args c))"
    using v2 by (cases "snd (createNodeGroupV2Internal a nm args c)") auto
  show "nodeGroupV2Failed (createNodeGroupV2Internal a nm args c)"
    using v2 deferred
    by (cases "snd (createNodeGroupV2Internal a nm args c)") (auto simp: nodeGroupV2Failed_def)
qed

theorem validation_before_resources_witness:
  "createNodeGroupInternal sampleAws ''stk''
     (noOptions\<lparr>nodePublicKey := Some ''ssh-rsa AAAA'', keyName := Some ''k''\<rparr>) sampleCore =
     ([], Inl PublicKeyAndKeyNameExclusive) \<and>
   createNodeGroupInternal sampleAws ''stk''
     (noOptions\<lparr>nodeSecurityGroup := Some \<lparr>sg_object = 1, sg_id = ''sg-1''\<rparr>\<rparr>) sampleCore =
     ([], Inl ClusterIngressRuleRequired) \<and>
   createNodeGroupV2Internal sampleAws ''ng''
     (noOptions\<lparr>nodePublicKey := Some ''ssh-rsa AAAA'',
               nodeRootVolumeThroughput := Some (JSNum False 125 []),
               nodeRootVolumeType := Some Io1\<rparr>) sampleCore =
     ([SecurityGroup, SecurityGroupRule, KeyPair], Inl ThroughputOnNonGp3) \<and>
   fst (createNodeGroupV2Internal sampleAws ''ng'' noOptions (sampleCore\<lparr>core_instanceProfile := None\<rparr>)) =
     [SecurityGroup, SecurityGroupRule, LaunchTemplate, AutoScalingGroup] \<and>
   nodeGroupV2Failed
     (createNodeGroupV2Internal sampleAws ''ng'' noOptions (sampleCore\<lparr>core_instanceProfile := None\<rparr>))"
proof -
  have e1: "createNodeGroupInternal sampleAws ''stk''
     (noOptions\<lparr>nodePublicKey := Some ''ssh-rsa AAAA'', keyName := Some ''k''\<rparr>) sampleCore =
     ([], Inl PublicKeyAndKeyNameExclusive)"
    by code_simp
  have e2: "createNodeGroupInternal sampleAws ''stk''
     (noOptions\<lparr>nodeSecurityGroup := Some \<lparr>sg_object = 1, sg_id = ''sg-1''\<rparr>\<rparr>) sampleCore =
     ([], Inl ClusterIngressRuleRequired)"
    by code_simp
  have e3: "createNodeGroupV2Internal sampleAws ''ng''
     (noOptions\<lparr>nodePublicKey := Some ''ssh-rsa AAAA'',
               nodeRootVolumeThroughput := Some (JSNum False 125 []),
               nodeRootVolumeType := Some Io1\<rparr>) sampleCore =
     ([SecurityGroup, SecurityGroupRule, KeyPair], Inl ThroughputOnNonGp3)"
    by code_simp
  have p: "exclusionChecks noOptions = Inr () \<and> \<not> isl (snd (resolveSecurityGroup noOptions)) \<and>
    rootVolumeChecks noOptions = Inr () \<and>
    ((instanceProfile noOptions = None \<and> core_instanceProfile (sampleCore\<lparr>core_instanceProfile := None\<rparr>) = None) \<or>
     (nodeSecurityGroupTags (sampleCore\<lparr>core_instanceProfile := None\<rparr>) \<noteq> None \<and>
      core_nodeSecurityGroup (sampleCore\<lparr>core_instanceProfile := None\<rparr>) \<noteq> None \<and>
      nodeSecurityGroup noOptions \<noteq> None \<and>
      map_option sg_object (core_nodeSecurityGroup (sampleCore\<lparr>core_instanceProfile := None\<rparr>)) \<noteq>
      map_option sg_object (nodeSecurityGroup noOptions)))"
    by code_simp
  have sg: "fst (resolveSecurityGroup noOptions) @ keyResources noOptions = [SecurityGroup, SecurityGroupRule]"
    by code_simp
  have e4: "fst (createNodeGroupV2Internal sampleAws ''ng'' noOptions (sampleCore\<lparr>core_instanceProfile := None\<rparr>)) =
     [SecurityGroup, SecurityGroupRule, LaunchTemplate, AutoScalingGroup] \<and>
   nodeGroupV2Failed
     (createNodeGroupV2Internal sampleAws ''ng'' noOptions (sampleCore\<lparr>core_instanceProfile := None\<rparr>))"
    using validation_before_resources
        [of noOptions sampleAws "''stk''" "sampleCore\<lparr>core_instanceProfile := None\<rparr>" "''ng''",
         THEN conjunct2, THEN conjunct2, THEN conjunct2, THEN mp, OF p] sg
    by simp
  show ?thesis
    using validation_before_resources
        [of "noOptions\<lparr>nodePublicKey := Some ''ssh-rsa AAAA'', keyName := Some ''k''\<rparr>"
            sampleAws "''stk''" sampleCore "''ng''"]
      e1 e2 e3 e4
    by simp
qed

text \<open>C9 as stated fails in three ways. With a public key and provisioned IOPS on a
  \<^verbatim>\<open>gp2\<close> volume, the key pair is constructed before the check of the volume throws. With
  no instance profile in the options or in the cluster, and with a security group object
  other than that of a cluster that has security group tags, the call does not throw: every
  resource is constructed, and only the deferred value is rejected.\<close>

theorem volume_check_after_key_pair_counterexample:
  "createNodeGroupInternal sampleAws ''stk''
     (noOptions\<lparr>nodeSecurityGroup := Some \<lparr>sg_object = 1, sg_id = ''sg-1''\<rparr>,
               clusterIngressRule := Some ''sgr-1'',
               nodePublicKey := Some ''ssh-rsa AAAA'',
               nodeRootVolumeIops := Some (JSNum False 100 []), nodeRootVolumeType := Some Gp2\<rparr>)
     sampleCore = ([KeyPair, RandomSuffix], Inl IopsOnNonIo1) \<and>
   createNodeGroupV2Internal sampleAws ''ng''
     (noOptions\<lparr>nodeSecurityGroup := Some \<lparr>sg_object = 1, sg_id = ''sg-1''\<rparr>,
               clusterIngressRule := Some ''sgr-1'',
               nodePublicKey := Some ''ssh-rsa AAAA'',
               nodeRootVolumeIops := Some (JSNum False 100 []), nodeRootVolumeType := Some Gp2\<rparr>)
     sampleCore = ([KeyPair], Inl IopsOnNonIo1) \<and>
   fst (createNodeGroupInternal sampleAws ''stk'' noOptions (sampleCore\<lparr>core_instanceProfile := None\<rparr>)) =
     [SecurityGroup, SecurityGroupRule, RandomSuffix, LaunchConfiguration, CloudFormationStack] \<and>
   map_sum id iamInstanceProfile
     (snd (createNodeGroupInternal sampleAws ''stk'' noOptions (sampleCore\<lparr>core_instanceProfile := None\<rparr>))) =
     Inr (Inl InstanceProfileRequired) \<and>
   fst (createNodeGroupV2Internal sampleAws ''ng'' noOptions (sampleCore\<lparr>core_instanceProfile := None\<rparr>)) =
     [SecurityGroup, SecurityGroupRule, LaunchTemplate, AutoScalingGroup] \<and>
   map_sum id v2_iamInstanceProfile
     (snd (createNodeGroupV2Internal sampleAws ''ng'' noOptions (sampleCore\<lparr>core_instanceProfile := None\<rparr>))) =
     Inr (Inl InstanceProfileRequired) \<and>
   fst (createNodeGroupInternal sampleAws ''stk''
          (noOptions\<lparr>nodeSecurityGroup := Some \<lparr>sg_object = 2, sg_id = ''sg-2''\<rparr>,
                    clusterIngressRule := Some ''sgr-2''\<rparr>)
          (sampleCore\<lparr>core_nodeSecurityGroup := Some \<lparr>sg_object = 1, sg_id = ''sg-1''\<rparr>,
                      nodeSecurityGroupTags := Some [(''team'', ''a'')]\<rparr>)) =
     [RandomSuffix, LaunchConfiguration, CloudFormationStack] \<and>
   map_sum id securityGroupTagsChecked
     (snd (createNodeGroupInternal sampleAws ''stk''
          (noOptions\<lparr>nodeSecurityGroup := Some \<lparr>sg_object = 2, sg_id = ''sg-2''\<rparr>,
                    clusterIngressRule := Some ''sgr-2''\<rparr>)
          (sampleCore\<lparr>core_nodeSecurityGroup := Some \<lparr>sg_object = 1, sg_id = ''sg-1''\<rparr>,
                      nodeSecurityGroupTags := Some [(''team'', ''a'')]\<rparr>))) =
     Inr (Inl SecurityGroupAndTagsExclusive)"
  by code_simp

subsection \<open>Empty user data override\<close>

lemma override_irrelevant:
  "resolveSecurityGroup (args\<lparr>nodeUserDataOverride := v\<rparr>) = resolveSecurityGroup args"
  "rootVolumeChecks (args\<lparr>nodeUserDataOverride := v\<rparr>) = rootVolumeChecks args"
  "keyResources (args\<lparr>nodeUserDataOverride := v\<rparr>) = keyResources args"
  "resolveKeyName (args\<lparr>nodeUserDataOverride := v\<rparr>) = resolveKeyName args"
  "resolveInstanceProfile (args\<lparr>nodeUserDataOverride := v\<rparr>) c = resolveInstanceProfile args c"
  "securityGroupTagsCheck (args\<lparr>nodeUserDataOverride := v\<rparr>) c = securityGroupTagsCheck args c"
  "resolveAmiId (args\<lparr>nodeUserDataOverride := v\<rparr>) c = resolveAmiId args c"
  "workerSubnetIds a (args\<lparr>nodeUserDataOverride := v\<rparr>) c = workerSubnetIds a args c"
  "minInstancesInService (args\<lparr>nodeUserDataOverride := v\<rparr>) = minInstancesInService args"
  "bootstrapLine (args\<lparr>nodeUserDataOverride := v\<rparr>) c = bootstrapLine args c"
  "userDataArg (args\<lparr>nodeUserDataOverride := v\<rparr>) = userDataArg args"
  "desiredCapacity (defaultCapacity (args\<lparr>nodeUserDataOverride := v\<rparr>)) = desiredCapacity (defaultCapacity args)"
  "minSize (defaultCapacity (args\<lparr>nodeUserDataOverride := v\<rparr>)) = minSize (defaultCapacity args)"
  "maxSize (defaultCapacity (args\<lparr>nodeUserDataOverride := v\<rparr>)) = maxSize (defaultCapacity args)"
  by (simp_all add: resolveSecurityGroup_def rootVolumeChecks_def keyResources_def resolveKeyName_def
      resolveInstanceProfile_def securityGroupTagsCheck_def resolveAmiId_def parameterName_def
      resolvedVersion_def selectedAmiType_def amiType_or_gpu_def workerSubnetIds_def
      minInstancesInService_def bootstrapLine_def bootstrapExtraArgsString_def
      kubeletExtraArgsList_def userDataArg_def defaultCapacity_def Let_def
      cong: option.case_cong if_cong)

lemma empty_override_no_conflict:
  "nodeUserDataOverride args = Some [] \<Longrightarrow> \<not> userDataOverrideConflict args"
  by (simp add: userDataOverrideConflict_def truthy_str_def)

lemma empty_override_exclusionChecks:
  "nodeUserDataOverride args = Some [] \<Longrightarrow>
   exclusionChecks (args\<lparr>nodeUserDataOverride := None\<rparr>) = exclusionChecks args"
  by (simp add: exclusionChecks_def userDataOverrideConflict_def truthy_str_def)

lemma empty_override_userdata:
  "userdata a st (args\<lparr>nodeUserDataOverride := v\<rparr>) c = userdata a st args c"
  by (simp add: userdata_def override_irrelevant)

lemma empty_override_V1:
  assumes "nodeUserDataOverride args = Some []"
  shows "createNodeGroupInternal a st (args\<lparr>nodeUserDataOverride := None\<rparr>) c =
         createNodeGroupInternal a st args c"
  unfolding createNodeGroupInternal_def Let_def
  by (simp add: override_irrelevant empty_override_exclusionChecks [OF assms] empty_override_userdata
      assms truthy_str_def cong: sum.case_cong prod.case_cong)

lemma empty_override_V2:
  assumes "nodeUserDataOverride args = Some []"
  shows "createNodeGroupV2Internal a nm (args\<lparr>nodeUserDataOverride := None\<rparr>) c =
         createNodeGroupV2Internal a nm args c"
  unfolding createNodeGroupV2Internal_def
  by (simp add: override_irrelevant empty_override_exclusionChecks [OF assms] userdataV2_def
      assms cong: sum.case_cong prod.case_cong)

lemma V1_userData:
  "createNodeGroupInternal a st args c = (rs, Inr d) \<Longrightarrow>
   lc_userData d = (if truthy_str (nodeUserDataOverride args)
                    then (case nodeUserDataOverride args of Some u \<Rightarrow> u | None \<Rightarrow> [])
                    else userdata a st args c)"
  by (auto simp: createNodeGroupInternal_def Let_def split: sum.splits prod.splits)

lemma V2_userData:
  "createNodeGroupV2Internal a nm args c = (rs, Inr d) \<Longrightarrow> lt_userData d = userdataV2 nm args c"
  by (auto simp: createNodeGroupV2Internal_def split: sum.splits prod.splits)

lemma exclusionChecks_override:
  "exclusionChecks args = Inl UserDataOverrideExclusive \<Longrightarrow> userDataOverrideConflict args"
  by (auto simp: exclusionChecks_def split: if_splits)

lemma resolveSecurityGroup_error:
  "snd (resolveSecurityGroup args) = Inl e \<Longrightarrow> e = ClusterIngressRuleRequired"
  by (auto simp: resolveSecurityGroup_def split: option.splits)

lemma rootVolumeChecks_error:
  "rootVolumeChecks args = Inl e \<Longrightarrow>
   e \<in> {IopsOnNonIo1, Io1IopsNotInteger, ThroughputOnNonGp3, Gp3ThroughputNotInteger}"
  by (auto simp: rootVolumeChecks_def split: if_splits)

text \<open>C10: with the empty string as user data override, the exclusion of the override does not
  fire, both provisioners behave as without the override, and the user data is the generated
  script (in base64 for the launch template).\<close>

theorem empty_user_data_override_is_absent:
  assumes "nodeUserDataOverride args = Some []"
  shows "\<not> userDataOverrideConflict args \<and>
         createNodeGroupInternal a st args c =
           createNodeGroupInternal a st (args\<lparr>nodeUserDataOverride := None\<rparr>) c \<and>
         createNodeGroupV2Internal a nm args c =
           createNodeGroupV2Internal a nm (args\<lparr>nodeUserDataOverride := None\<rparr>) c \<and>
         (case snd (createNodeGroupInternal a st args c) of
            Inl e \<Rightarrow> e \<noteq> UserDataOverrideExclusive
          | Inr d \<Rightarrow> lc_userData d = userdata a st args c) \<and>
         (case snd (createNodeGroupV2Internal a nm args c) of
            Inl e \<Rightarrow> e \<noteq> UserDataOverrideExclusive
          | Inr d \<Rightarrow> lt_userData d =
                       toBase64 (''#!/bin/bash'' @ NL @ NL @ bootstrapLine args c @ NL @
                                 wrapCustomUserData nm (userDataArg args) @ NL))"
proof (intro conjI)
  show nc: "\<not> userDataOverrideConflict args"
    by (rule empty_override_no_conflict [OF assms])
  show "createNodeGroupInternal a st args c =
           createNodeGroupInternal a st (args\<lparr>nodeUserDataOverride := None\<rparr>) c"
    by (rule empty_override_V1 [OF assms, symmetric])
  show "createNodeGroupV2Internal a nm args c =
           createNodeGroupV2Internal a nm (args\<lparr>nodeUserDataOverride := None\<rparr>) c"
    by (rule empty_override_V2 [OF assms, symmetric])
  have no_override_error: "e \<noteq> UserDataOverrideExclusive"
    if "exclusionChecks args = Inl e \<or> snd (resolveSecurityGroup args) = Inl e \<or>
        rootVolumeChecks args = Inl e" for e
    using that nc exclusionChecks_override resolveSecurityGroup_error rootVolumeChecks_error
    by fastforce
  show "case snd (createNodeGroupInternal a st args c) of
            Inl e \<Rightarrow> e \<noteq> UserDataOverrideExclusive
          | Inr d \<Rightarrow> lc_userData d = userdata a st args c"
    using V1_cases [of a st args c] V1_userData [of a st args c] no_override_error assms
    by (cases "createNodeGroupInternal a st args c") (auto simp: truthy_str_def split: sum.splits)
  show "case snd (createNodeGroupV2Internal a nm args c) of
            Inl e \<Rightarrow> e \<noteq> UserDataOverrideExclusive
          | Inr d \<Rightarrow> lt_userData d =
                       toBase64 (''#!/bin/bash'' @ NL @ NL @ bootstrapLine args c @ NL @
                                 wrapCustomUserData nm (userDataArg args) @ NL)"
    using V2_cases [of a nm args c] V2_userData [of a nm args c] no_override_error assms
    by (cases "createNodeGroupV2Internal a nm args c") (auto simp: userdataV2_def split: sum.splits)
qed

theorem empty_user_data_override_is_absent_witness:
  "map_sum id lc_userData
     (snd (createNodeGroupInternal sampleAws ''stk''
            (noOptions\<lparr>nodeUserDataOverride := Some [], labels := Some [(''role'', ''web'')]\<rparr>)
            sampleCore)) =
     Inr (''#!/bin/bash'' @ NL @ NL @
          ''/etc/eks/bootstrap.sh --apiserver-endpoint '' @ DQ @ ''https://api'' @ DQ @
          '' --b64-cluster-ca '' @ DQ @ ''Q0E='' @ DQ @ '' '' @ DQ @ ''c1'' @ DQ @
          '' --kubelet-extra-args --node-labels=role=web'' @ NL @ NL @
          ''/opt/aws/bin/cfn-signal --exit-code $? --stack stk --resource NodeGroup --region us-west-2'' @
          NL) \<and>
   fst (createNodeGroupV2Internal sampleAws ''ng''
            (noOptions\<lparr>nodeUserDataOverride := Some [], labels := Some [(''role'', ''web'')]\<rparr>)
            sampleCore) =
     [SecurityGroup, SecurityGroupRule, LaunchTemplate, AutoScalingGroup]"
proof -
  let ?args = "noOptions\<lparr>nodeUserDataOverride := Some [], labels := Some [(''role'', ''web'')]\<rparr>"
  have h: "nodeUserDataOverride ?args = Some []"
    by simp
  have ok1: "\<not> isl (snd (createNodeGroupInternal sampleAws ''stk'' ?args sampleCore))"
    by code_simp
  have u: "userdata sampleAws ''stk'' ?args sampleCore =
          ''#!/bin/bash'' @ NL @ NL @
          ''/etc/eks/bootstrap.sh --apiserver-endpoint '' @ DQ @ ''https://api'' @ DQ @
          '' --b64-cluster-ca '' @ DQ @ ''Q0E='' @ DQ @ '' '' @ DQ @ ''c1'' @ DQ @
          '' --kubelet-extra-args --node-labels=role=web'' @ NL @ NL @
          ''/opt/aws/bin/cfn-signal --exit-code $? --stack stk --resource NodeGroup --region us-west-2'' @
          NL"
    by code_simp
  have r: "fst (createNodeGroupV2Internal sampleAws ''ng'' (?args\<lparr>nodeUserDataOverride := None\<rparr>) sampleCore) =
     [SecurityGroup, SecurityGroupRule, LaunchTemplate, AutoScalingGroup]"
    by code_simp
  show ?thesis
    using empty_user_data_override_is_absent [OF h, of sampleAws "''stk''" sampleCore "''ng''"] ok1 u r
    by (auto split: sum.splits)
qed

end
